theory Spec2Isabelle
  imports Complex_Main
begin

section \<open>JavaScript values\<close>

text \<open>
  The flow in \<^verbatim>\<open>src/ai/flows/analyze-student-profile.ts\<close> receives the model's output
  as \<^verbatim>\<open>unknown\<close> and inspects its shape at run time, so the values are modelled
  as an untyped datatype. A string is the list of the bytes of its UTF-8 form. An object
  is the list of its own enumerable properties in the order \<^verbatim>\<open>Object.keys\<close>
  lists them. Accessors, proxies and functions are not data the model call returns and
  are left out.
\<close>

datatype error = TypeError | SyntaxError | URIError | RangeError | CallFailed string

datatype jsnum = NaN | Infinity bool | Finite rat

datatype jsval =
    JUndefined
  | JNull
  | JBool bool
  | JNum jsnum
  | JStr string
  | JArr "jsval list"
  | JObj "(string \<times> jsval) list"

text \<open>Truthiness, as \<^verbatim>\<open>data && ...\<close> and \<^verbatim>\<open>a || b\<close> read it.\<close>

fun truthy :: "jsval \<Rightarrow> bool" where
  "truthy JUndefined = False"
| "truthy JNull = False"
| "truthy (JBool b) = b"
| "truthy (JNum NaN) = False"
| "truthy (JNum (Infinity s)) = True"
| "truthy (JNum (Finite q)) = (q \<noteq> 0)"
| "truthy (JStr s) = (s \<noteq> [])"
| "truthy (JArr xs) = True"
| "truthy (JObj fs) = True"

fun isArray :: "jsval \<Rightarrow> bool" where
  "isArray (JArr xs) = True"
| "isArray v = False"

text \<open>The elements of an array value (\<open>[]\<close> for anything else; read only behind \<open>isArray\<close>).\<close>

fun arrayItems :: "jsval \<Rightarrow> jsval list" where
  "arrayItems (JArr xs) = xs"
| "arrayItems v = []"

fun typeof :: "jsval \<Rightarrow> string" where
  "typeof JUndefined = ''undefined''"
| "typeof JNull = ''object''"
| "typeof (JBool b) = ''boolean''"
| "typeof (JNum n) = ''number''"
| "typeof (JStr s) = ''string''"
| "typeof (JArr xs) = ''object''"
| "typeof (JObj fs) = ''object''"

text \<open>Decimal form of an array index.\<close>

definition digitChar :: "nat \<Rightarrow> char" where
  "digitChar d = ''0123456789'' ! d"

fun showNat :: "nat \<Rightarrow> string" where
  "showNat n = (if n < 10 then [digitChar n] else showNat (n div 10) @ [digitChar (n mod 10)])"

declare showNat.simps [simp del]

text \<open>
  Own enumerable string-keyed properties, in \<^verbatim>\<open>Object.keys\<close> order. It is applied
  to objects and arrays only (the callers test \<^verbatim>\<open>typeof data === 'object'\<close> on a
  truthy value first).
\<close>

fun ownProps :: "jsval \<Rightarrow> (string \<times> jsval) list" where
  "ownProps (JObj fs) = fs"
| "ownProps (JArr xs) = zip (map showNat [0..<length xs]) xs"
| "ownProps v = []"

definition objectKeys :: "jsval \<Rightarrow> string list" where
  "objectKeys v = map fst (ownProps v)"

text \<open>
  Reading a property \<^verbatim>\<open>v[k]\<close>. On \<^verbatim>\<open>undefined\<close> and \<^verbatim>\<open>null\<close> it throws a
  TypeError. Elsewhere it is the own data property or \<^verbatim>\<open>undefined\<close>: the names this
  program reads by a literal (\<^verbatim>\<open>suggestedCareerPaths\<close>, \<^verbatim>\<open>careerPaths\<close>,
  \<^verbatim>\<open>careerPath\<close>, \<^verbatim>\<open>name\<close>) are on no built-in prototype of a data value, and
  the other reads are of own keys.
\<close>

fun getProp :: "jsval \<Rightarrow> string \<Rightarrow> error + jsval" where
  "getProp JUndefined k = Inl TypeError"
| "getProp JNull k = Inl TypeError"
| "getProp v k = Inr (case map_of (ownProps v) k of Some x \<Rightarrow> x | None \<Rightarrow> JUndefined)"

section \<open>The response normalizer\<close>

text \<open>
  \<^verbatim>\<open>normalize\<close> (lines 131-149; the second copy of the flow in the same file, lines
  368-394, has the same body). \<^verbatim>\<open>JSON.parse\<close> is the language's built-in and is taken
  as the parameter \<open>parse\<close>: \<open>Inl\<close> is the exception it throws, which the
  \<^verbatim>\<open>try { ... } catch (_) {}\<close> swallows, leaving \<open>data\<close> the string itself.
\<close>

definition parsed :: "(string \<Rightarrow> error + jsval) \<Rightarrow> jsval \<Rightarrow> jsval" where
  "parsed parse out =
     (case out of
        JStr s \<Rightarrow> (case parse s of Inr v \<Rightarrow> v | Inl e \<Rightarrow> out)
      | _ \<Rightarrow> out)"

text \<open>
  The loop \<^verbatim>\<open>for (const key of Object.keys(data))\<close> with its accumulator \<open>arrays\<close>.
  \<^verbatim>\<open>arrays.push(...val)\<close> passes every element of \<open>val\<close> as an argument of one
  call, and an engine throws a RangeError when a call has more arguments than it
  accepts. That number is the engine's own (it depends on its stack) and is the
  parameter \<open>maxArgs\<close>.
\<close>

fun collectArrays ::
  "nat \<Rightarrow> jsval \<Rightarrow> string list \<Rightarrow> jsval list \<Rightarrow> error + jsval list"
where
  "collectArrays maxArgs data [] arrays = Inr arrays"
| "collectArrays maxArgs data (key # keys) arrays =
     (case getProp data key of
        Inl e \<Rightarrow> Inl e
      | Inr val \<Rightarrow>
          (if isArray val then
             (if length (arrayItems val) > maxArgs then Inl RangeError
              else collectArrays maxArgs data keys (arrays @ arrayItems val))
           else collectArrays maxArgs data keys arrays))"

text \<open>\<^verbatim>\<open>data && Array.isArray(data[k])\<close>, and the array when the test holds.\<close>

definition arrayField :: "jsval \<Rightarrow> string \<Rightarrow> error + jsval list option" where
  "arrayField data k =
     (if truthy data then
        (case getProp data k of
           Inl e \<Rightarrow> Inl e
         | Inr val \<Rightarrow> Inr (if isArray val then Some (arrayItems val) else None))
      else Inr None)"

definition normalize_out ::
  "nat \<Rightarrow> (string \<Rightarrow> error + jsval) \<Rightarrow> jsval \<Rightarrow> error + jsval list"
where
  "normalize_out maxArgs parse out =
     (let data = parsed parse out in
      if isArray data then Inr (arrayItems data)
      else
        (case arrayField data ''suggestedCareerPaths'' of
           Inl e \<Rightarrow> Inl e
         | Inr (Some xs) \<Rightarrow> Inr xs
         | Inr None \<Rightarrow>
             (case arrayField data ''careerPaths'' of
                Inl e \<Rightarrow> Inl e
              | Inr (Some xs) \<Rightarrow> Inr xs
              | Inr None \<Rightarrow>
                  (if truthy data \<and> typeof data = ''object'' then
                     (case collectArrays maxArgs data (objectKeys data) [] of
                        Inl e \<Rightarrow> Inl e
                      | Inr arrays \<Rightarrow> if length arrays > 0 then Inr arrays else Inr [])
                   else Inr []))))"

text \<open>
  The decision tree of the specification (section 4.1), written from its words: the
  parsed value; an array verbatim; else an array field \<^verbatim>\<open>suggestedCareerPaths\<close>; else
  an array field \<^verbatim>\<open>careerPaths\<close>; else, for an object, the array-valued fields
  concatenated in field-iteration order when there are any; else nothing.
\<close>

fun fieldOf :: "jsval \<Rightarrow> string \<Rightarrow> jsval option" where
  "fieldOf (JObj fs) k = map_of fs k"
| "fieldOf v k = None"

fun arrayFieldOf :: "jsval \<Rightarrow> string \<Rightarrow> jsval list option" where
  "arrayFieldOf v k = (case fieldOf v k of Some (JArr xs) \<Rightarrow> Some xs | _ \<Rightarrow> None)"

definition arrayValuedFields :: "(string \<times> jsval) list \<Rightarrow> jsval list list" where
  "arrayValuedFields fs =
     concat (map (\<lambda>k. case map_of fs k of Some (JArr xs) \<Rightarrow> [xs] | _ \<Rightarrow> []) (map fst fs))"

definition normalize_spec :: "(string \<Rightarrow> error + jsval) \<Rightarrow> jsval \<Rightarrow> jsval list" where
  "normalize_spec parse raw =
     (let v = (case raw of
                 JStr s \<Rightarrow> (case parse s of Inr d \<Rightarrow> d | Inl e \<Rightarrow> raw)
               | _ \<Rightarrow> raw)
      in case v of
           JArr xs \<Rightarrow> xs
         | _ \<Rightarrow>
           (case arrayFieldOf v ''suggestedCareerPaths'' of
              Some xs \<Rightarrow> xs
            | None \<Rightarrow>
              (case arrayFieldOf v ''careerPaths'' of
                 Some xs \<Rightarrow> xs
               | None \<Rightarrow>
                 (case v of
                    JObj fs \<Rightarrow>
                      (if arrayValuedFields fs \<noteq> [] then concat (arrayValuedFields fs) else [])
                  | _ \<Rightarrow> []))))"

text \<open>
  Where the code leaves the decision tree: the value reaches the last branch (an object
  with neither array field) and one of its array-valued fields has more elements than
  a call takes arguments.
\<close>

definition tooLongField :: "nat \<Rightarrow> (string \<times> jsval) list \<Rightarrow> bool" where
  "tooLongField maxArgs fs =
     list_ex (\<lambda>k. case map_of fs k of Some (JArr xs) \<Rightarrow> maxArgs < length xs | _ \<Rightarrow> False)
       (map fst fs)"

definition spreadFails :: "nat \<Rightarrow> jsval \<Rightarrow> bool" where
  "spreadFails maxArgs v =
     (case v of
        JObj fs \<Rightarrow>
          arrayFieldOf v ''suggestedCareerPaths'' = None \<and>
          arrayFieldOf v ''careerPaths'' = None \<and> tooLongField maxArgs fs
      | _ \<Rightarrow> False)"

section \<open>JSON.parse\<close>

text \<open>
  \<^verbatim>\<open>JSON.parse\<close> is the language's built-in (ECMA-262, section 25.5.1, on the
  grammar of ECMA-404), not code of the repository. It is written out so that the flow
  can be run on concrete model outputs; every theorem about the normalizer is stated
  for an arbitrary function in its place. A text is white space, one value, white
  space.
\<close>

text \<open>White space, digits, and the value of a run of digits.\<close>

definition isWs :: "char \<Rightarrow> bool" where
  "isWs c = (c = CHR '' '' \<or> c = CHR 0x09 \<or> c = CHR 0x0A \<or> c = CHR 0x0D)"

definition skipWs :: "string \<Rightarrow> string" where
  "skipWs s = dropWhile isWs s"

definition isDigit :: "char \<Rightarrow> bool" where
  "isDigit c = (let n = (of_char c :: nat) in 48 \<le> n \<and> n \<le> 57)"

definition digitsVal :: "string \<Rightarrow> int" where
  "digitsVal ds = foldl (\<lambda>a c. 10 * a + (of_char c - 48)) 0 ds"

text \<open>
  String literals. A \<^verbatim>\<open>\uXXXX\<close> escape is written in UTF-8: a surrogate pair as the
  one four-byte character it stands for, a lone surrogate in the generalised three-byte
  form. \<open>lexString\<close> reads the characters after the opening quote and returns the
  string and the rest of the text after the closing quote.
\<close>

definition hexVal :: "char \<Rightarrow> int option" where
  "hexVal c =
     (let n = (of_char c :: int) in
      if 48 \<le> n \<and> n \<le> 57 then Some (n - 48)
      else if 65 \<le> n \<and> n \<le> 70 then Some (n - 55)
      else if 97 \<le> n \<and> n \<le> 102 then Some (n - 87)
      else None)"

definition hex4 :: "char \<Rightarrow> char \<Rightarrow> char \<Rightarrow> char \<Rightarrow> int option" where
  "hex4 a b c d =
     (case (hexVal a, hexVal b, hexVal c, hexVal d) of
        (Some w, Some x, Some y, Some z) \<Rightarrow> Some (4096 * w + 256 * x + 16 * y + z)
      | _ \<Rightarrow> None)"

definition utf8 :: "int \<Rightarrow> string" where
  "utf8 n =
     (if n < 128 then [char_of n]
      else if n < 2048 then [char_of (192 + n div 64), char_of (128 + n mod 64)]
      else if n < 65536 then
        [char_of (224 + n div 4096), char_of (128 + n div 64 mod 64), char_of (128 + n mod 64)]
      else
        [char_of (240 + n div 262144), char_of (128 + n div 4096 mod 64),
         char_of (128 + n div 64 mod 64), char_of (128 + n mod 64)])"

definition escapeChar :: "char \<Rightarrow> char option" where
  "escapeChar e =
     (if e = CHR 0x22 \<or> e = CHR 0x5C \<or> e = CHR ''/'' then Some e
      else if e = CHR ''b'' then Some (CHR 0x08)
      else if e = CHR ''f'' then Some (CHR 0x0C)
      else if e = CHR ''n'' then Some (CHR 0x0A)
      else if e = CHR ''r'' then Some (CHR 0x0D)
      else if e = CHR ''t'' then Some (CHR 0x09)
      else None)"

definition lowSurrogate :: "string \<Rightarrow> int option" where
  "lowSurrogate s =
     (case s of
        b # u # w # x # y # z # rest \<Rightarrow>
          (if b = CHR 0x5C \<and> u = CHR ''u'' then
             (case hex4 w x y z of
                Some lo \<Rightarrow> if 56320 \<le> lo \<and> lo < 57344 then Some lo else None
              | None \<Rightarrow> None)
           else None)
      | _ \<Rightarrow> None)"

fun lexString :: "string \<Rightarrow> string \<Rightarrow> (string \<times> string) option" where
  "lexString [] acc = None"
| "lexString (c # cs) acc =
     (if c = CHR 0x22 then Some (acc, cs)
      else if c = CHR 0x5C then
        (case cs of
           [] \<Rightarrow> None
         | e # es \<Rightarrow>
             (if e = CHR ''u'' then
                (case es of
                   w # x # y # z # rest \<Rightarrow>
                     (case hex4 w x y z of
                        None \<Rightarrow> None
                      | Some hi \<Rightarrow>
                          (case (if 55296 \<le> hi \<and> hi < 56320 then lowSurrogate rest else None) of
                             Some lo \<Rightarrow>
                               lexString (drop 6 rest)
                                 (acc @ utf8 (65536 + (hi - 55296) * 1024 + (lo - 56320)))
                           | None \<Rightarrow> lexString rest (acc @ utf8 hi)))
                 | _ \<Rightarrow> None)
              else
                (case escapeChar e of
                   None \<Rightarrow> None
                 | Some x \<Rightarrow> lexString es (acc @ [x]))))
      else if (of_char c :: nat) < 32 then None
      else lexString cs (acc @ [c]))"


text \<open>
  Number literals: \<^verbatim>\<open>-? (0 | [1-9][0-9]*) (. [0-9]+)? ([eE] [+-]? [0-9]+)?\<close>. The
  literal is read as the rational it denotes and fitted to the range of a double: a
  magnitude of \<open>2^1024 - 2^970\<close> or more is an infinity, one of \<open>2^-1075\<close> or
  less is zero. The rounding of the mantissa is not modelled; nothing in this program
  computes with a number.
\<close>

definition toDouble :: "rat \<Rightarrow> jsnum" where
  "toDouble q =
     (if \<bar>q\<bar> \<ge> 2 ^ 1024 - 2 ^ 970 then Infinity (q < 0)
      else if \<bar>q\<bar> \<le> 1 / 2 ^ 1075 then Finite 0
      else Finite q)"

definition lexFraction :: "string \<Rightarrow> (string \<times> string) option" where
  "lexFraction s =
     (case s of
        [] \<Rightarrow> Some ([], s)
      | c # r \<Rightarrow>
          (if c = CHR ''.'' then
             (if takeWhile isDigit r = [] then None
              else Some (takeWhile isDigit r, dropWhile isDigit r))
           else Some ([], s)))"

definition lexExponent :: "string \<Rightarrow> (int \<times> string) option" where
  "lexExponent s =
     (case s of
        [] \<Rightarrow> Some (0, s)
      | c # r \<Rightarrow>
          (if c = CHR ''e'' \<or> c = CHR ''E'' then
             (let neg = (case r of [] \<Rightarrow> False | d # t \<Rightarrow> d = CHR ''-'');
                  r' = (case r of
                          [] \<Rightarrow> r
                        | d # t \<Rightarrow> if d = CHR ''-'' \<or> d = CHR ''+'' then t else r)
              in if takeWhile isDigit r' = [] then None
                 else Some ((if neg then - digitsVal (takeWhile isDigit r')
                             else digitsVal (takeWhile isDigit r')),
                            dropWhile isDigit r'))
           else Some (0, s)))"

definition lexNumber :: "string \<Rightarrow> (jsval \<times> string) option" where
  "lexNumber s =
     (let neg = (case s of [] \<Rightarrow> False | c # r \<Rightarrow> c = CHR ''-'');
          s1 = (if neg then tl s else s);
          ip = takeWhile isDigit s1
      in if ip = [] \<or> (length ip > 1 \<and> hd ip = CHR ''0'') then None
         else
           (case lexFraction (dropWhile isDigit s1) of
              None \<Rightarrow> None
            | Some (fp, s2) \<Rightarrow>
                (case lexExponent s2 of
                   None \<Rightarrow> None
                 | Some (e, s3) \<Rightarrow>
                     (let m = (of_int (digitsVal ip) :: rat)
                              + of_int (digitsVal fp) / 10 ^ length fp;
                          q = (if e < 0 then m / 10 ^ nat (- e) else m * 10 ^ nat e)
                      in Some (JNum (toDouble (if neg then - q else q)), s3)))))"


text \<open>
  Defining a property of the object under construction. The own keys of an object are
  listed with the array indices (canonical numerals up to \<open>2^32 - 2\<close>) first, in
  ascending order, then the other keys in the order of their first definition; a
  repeated key keeps its place and takes the later value.
\<close>

definition isArrayIndex :: "string \<Rightarrow> bool" where
  "isArrayIndex k =
     (k \<noteq> [] \<and> list_all isDigit k \<and> (length k = 1 \<or> hd k \<noteq> CHR ''0'')
      \<and> digitsVal k \<le> 4294967294)"

fun insertIndexed :: "(string \<times> jsval) list \<Rightarrow> string \<Rightarrow> jsval \<Rightarrow> (string \<times> jsval) list" where
  "insertIndexed [] k v = [(k, v)]"
| "insertIndexed (p # fs) k v =
     (if isArrayIndex (fst p) \<and> digitsVal (fst p) < digitsVal k then p # insertIndexed fs k v
      else (k, v) # p # fs)"

definition setProp :: "(string \<times> jsval) list \<Rightarrow> string \<Rightarrow> jsval \<Rightarrow> (string \<times> jsval) list" where
  "setProp fs k v =
     (if k \<in> set (map fst fs) then map (\<lambda>p. if fst p = k then (k, v) else p) fs
      else if isArrayIndex k then insertIndexed fs k v
      else fs @ [(k, v)])"

text \<open>
  Values, the elements of an array after its first element is known to exist, and the
  members of an object likewise. The first argument is fuel: each call passes on one
  less. \<open>JSON_parse\<close> gives twice the length of the text and two, which is never
  used up (lemma \<open>JSON_parse_fuel\<close>), so \<open>Inl SyntaxError\<close> is the text not being
  JSON.
\<close>

datatype presult = Ok jsval string | Bad | OutOfFuel

fun parseValue :: "nat \<Rightarrow> string \<Rightarrow> presult"
and parseElements :: "nat \<Rightarrow> string \<Rightarrow> jsval list \<Rightarrow> presult"
and parseMembers :: "nat \<Rightarrow> string \<Rightarrow> (string \<times> jsval) list \<Rightarrow> presult"
where
  "parseValue 0 s = OutOfFuel"
| "parseValue (Suc n) s =
     (case s of
        [] \<Rightarrow> Bad
      | c # cs \<Rightarrow>
          (if c = CHR ''['' then
             (case skipWs cs of
                [] \<Rightarrow> Bad
              | d # r \<Rightarrow> if d = CHR '']'' then Ok (JArr []) r else parseElements n (d # r) [])
           else if c = CHR ''{'' then
             (case skipWs cs of
                [] \<Rightarrow> Bad
              | d # r \<Rightarrow> if d = CHR ''}'' then Ok (JObj []) r else parseMembers n (d # r) [])
           else if c = CHR 0x22 then
             (case lexString cs [] of None \<Rightarrow> Bad | Some (str, r) \<Rightarrow> Ok (JStr str) r)
           else if take 4 s = ''true'' then Ok (JBool True) (drop 4 s)
           else if take 5 s = ''false'' then Ok (JBool False) (drop 5 s)
           else if take 4 s = ''null'' then Ok JNull (drop 4 s)
           else (case lexNumber s of None \<Rightarrow> Bad | Some (v, r) \<Rightarrow> Ok v r)))"
| "parseElements 0 s acc = OutOfFuel"
| "parseElements (Suc n) s acc =
     (case parseValue n s of
        Ok v r \<Rightarrow>
          (case skipWs r of
             [] \<Rightarrow> Bad
           | d # r' \<Rightarrow>
               (if d = CHR '','' then parseElements n (skipWs r') (acc @ [v])
                else if d = CHR '']'' then Ok (JArr (acc @ [v])) r'
                else Bad))
      | Bad \<Rightarrow> Bad
      | OutOfFuel \<Rightarrow> OutOfFuel)"
| "parseMembers 0 s acc = OutOfFuel"
| "parseMembers (Suc n) s acc =
     (case s of
        [] \<Rightarrow> Bad
      | q # cs \<Rightarrow>
          (if q = CHR 0x22 then
             (case lexString cs [] of
                None \<Rightarrow> Bad
              | Some (k, r) \<Rightarrow>
                  (case skipWs r of
                     [] \<Rightarrow> Bad
                   | d # r' \<Rightarrow>
                       (if d = CHR '':'' then
                          (case parseValue n (skipWs r') of
                             Ok v r'' \<Rightarrow>
                               (case skipWs r'' of
                                  [] \<Rightarrow> Bad
                                | d' # r3 \<Rightarrow>
                                    (if d' = CHR '','' then
                                       parseMembers n (skipWs r3) (setProp acc k v)
                                     else if d' = CHR ''}'' then Ok (JObj (setProp acc k v)) r3
                                     else Bad))
                           | Bad \<Rightarrow> Bad
                           | OutOfFuel \<Rightarrow> OutOfFuel)
                        else Bad)))
           else Bad))"

definition JSON_parse :: "string \<Rightarrow> error + jsval" where
  "JSON_parse src =
     (case parseValue (2 * length src + 2) (skipWs src) of
        Ok v r \<Rightarrow> if skipWs r = [] then Inr v else Inl SyntaxError
      | Bad \<Rightarrow> Inl SyntaxError
      | OutOfFuel \<Rightarrow> Inl SyntaxError)"

text \<open>A string in double quotes, for writing JSON texts.\<close>

definition quoted :: "string \<Rightarrow> string" where
  "quoted s = CHR 0x22 # s @ [CHR 0x22]"

section \<open>The fallback generator\<close>

text \<open>
  The catalog of \<^verbatim>\<open>fallbackSuggestions\<close> (lines 153-186): an object literal typed
  \<^verbatim>\<open>Record<string, { careerPath: string; requiredSkills: string[] }[]>\<close>, in the
  order of its keys.
\<close>

record catalogItem =
  careerPath :: string
  requiredSkills :: "string list"

definition catalog :: "(string \<times> catalogItem list) list" where
  "catalog =
    [(''Artificial Intelligence'',
       [\<lparr>careerPath = ''Machine Learning Engineer'',
         requiredSkills = [''Python'', ''Machine Learning'', ''TensorFlow'', ''PyTorch'',
           ''Data Structures'', ''Statistics'']\<rparr>,
        \<lparr>careerPath = ''AI Researcher'',
         requiredSkills = [''Python'', ''Deep Learning'', ''NLP'', ''Research Methods'',
           ''Mathematics'']\<rparr>]),
     (''Web Development'',
       [\<lparr>careerPath = ''Frontend Developer'',
         requiredSkills = [''HTML'', ''CSS'', ''JavaScript'', ''React'', ''TypeScript'']\<rparr>,
        \<lparr>careerPath = ''Full-Stack Developer'',
         requiredSkills = [''Node.js'', ''Express'', ''React'', ''Databases'', ''REST APIs'']\<rparr>]),
     (''UI/UX Design'',
       [\<lparr>careerPath = ''UI/UX Designer'',
         requiredSkills = [''Figma'', ''Wireframing'', ''Prototyping'', ''Design Systems'',
           ''User Research'']\<rparr>,
        \<lparr>careerPath = ''Product Designer'',
         requiredSkills = [''Interaction Design'', ''Visual Design'', ''Usability Testing'',
           ''Figma'']\<rparr>]),
     (''Data Science'',
       [\<lparr>careerPath = ''Data Scientist'',
         requiredSkills = [''Python'', ''Pandas'', ''Machine Learning'', ''Statistics'', ''SQL'']\<rparr>,
        \<lparr>careerPath = ''Data Analyst'',
         requiredSkills = [''SQL'', ''Excel'', ''Tableau/PowerBI'', ''Python'',
           ''Data Cleaning'']\<rparr>]),
     (''Cybersecurity'',
       [\<lparr>careerPath = ''Security Analyst'',
         requiredSkills = [''Network Security'', ''SIEM'', ''Incident Response'', ''Linux'',
           ''Scripting'']\<rparr>,
        \<lparr>careerPath = ''Penetration Tester'',
         requiredSkills = [''Linux'', ''Networking'', ''Burp Suite'', ''OWASP'', ''Scripting'']\<rparr>]),
     (''Mobile App Development'',
       [\<lparr>careerPath = ''Android Developer'',
         requiredSkills = [''Kotlin'', ''Android SDK'', ''Jetpack'', ''REST APIs'']\<rparr>,
        \<lparr>careerPath = ''Flutter Developer'',
         requiredSkills = [''Dart'', ''Flutter'', ''State Management'', ''REST APIs'']\<rparr>]),
     (''Cloud Computing'',
       [\<lparr>careerPath = ''Cloud Engineer'',
         requiredSkills = [''AWS/Azure/GCP'', ''Linux'', ''Terraform'', ''Networking'',
           ''Containers'']\<rparr>,
        \<lparr>careerPath = ''DevOps Engineer'',
         requiredSkills = [''CI/CD'', ''Docker'', ''Kubernetes'', ''Monitoring'', ''Scripting'']\<rparr>]),
     (''Game Development'',
       [\<lparr>careerPath = ''Game Developer'',
         requiredSkills = [''Unity/Unreal'', ''C# or C++'', ''Game Physics'', ''3D Math'']\<rparr>,
        \<lparr>careerPath = ''Technical Artist'',
         requiredSkills = [''Shaders'', ''3D Pipelines'', ''Scripting'', ''Rendering'']\<rparr>])]"

text \<open>
  \<^verbatim>\<open>catalog[interest]\<close> reads a property of an ordinary object, so a name that is not
  an own key is looked up on \<^verbatim>\<open>Object.prototype\<close>. The names below are the
  properties of \<^verbatim>\<open>Object.prototype\<close> (ECMA-262, sections 20.1.3 and B.2.2); each
  is a function, or for \<^verbatim>\<open>__proto__\<close> the prototype object itself: truthy, and not
  iterable.
\<close>

definition objectPrototypeKeys :: "string list" where
  "objectPrototypeKeys =
    [''constructor'', ''hasOwnProperty'', ''isPrototypeOf'', ''propertyIsEnumerable'',
     ''toLocaleString'', ''toString'', ''valueOf'', ''__proto__'', ''__defineGetter__'',
     ''__defineSetter__'', ''__lookupGetter__'', ''__lookupSetter__'']"

datatype catalogSlot = Items "catalogItem list" | Inherited | Absent

definition catalogGet :: "string \<Rightarrow> catalogSlot" where
  "catalogGet interest =
     (case map_of catalog interest of
        Some items \<Rightarrow> Items items
      | None \<Rightarrow> if interest \<in> set objectPrototypeKeys then Inherited else Absent)"

text \<open>
  \<^verbatim>\<open>const items = catalog[interest] || []\<close> followed by \<^verbatim>\<open>for (const item of items)\<close>:
  the list the loop runs over, or the TypeError of iterating a value that is not
  iterable.
\<close>

definition itemsOf :: "string \<Rightarrow> error + catalogItem list" where
  "itemsOf interest =
     (case catalogGet interest of
        Items items \<Rightarrow> Inr items
      | Absent \<Rightarrow> Inr []
      | Inherited \<Rightarrow> Inl TypeError)"

text \<open>
  \<^verbatim>\<open>encodeURIComponent\<close>: every byte of the UTF-8 form is written \<^verbatim>\<open>%XX\<close> but the
  unreserved characters \<^verbatim>\<open>A-Z a-z 0-9 - _ . ! ~ * ' ( )\<close>. It throws a URIError on a
  lone surrogate, which in the byte form of a string is the three bytes
  \<^verbatim>\<open>ED A0..BF xx\<close>.
\<close>

definition isAlnum :: "char \<Rightarrow> bool" where
  "isAlnum c =
     (let n = (of_char c :: nat) in
      (48 \<le> n \<and> n \<le> 57) \<or> (65 \<le> n \<and> n \<le> 90) \<or> (97 \<le> n \<and> n \<le> 122))"

definition uriUnreserved :: "char \<Rightarrow> bool" where
  "uriUnreserved c = (isAlnum c \<or> c \<in> set ''-_.!~*()'' \<or> c = CHR 0x27)"

definition hexDigit :: "nat \<Rightarrow> char" where
  "hexDigit d = ''0123456789ABCDEF'' ! d"

definition percentByte :: "char \<Rightarrow> string" where
  "percentByte c =
     (if uriUnreserved c then [c]
      else [CHR ''%'', hexDigit (of_char c div 16), hexDigit (of_char c mod 16)])"

definition percentEncode :: "string \<Rightarrow> string" where
  "percentEncode s = concat (map percentByte s)"

fun loneSurrogate :: "string \<Rightarrow> bool" where
  "loneSurrogate (a # b # cs) =
     (((of_char a :: nat) = 237 \<and> (of_char b :: nat) \<ge> 160) \<or> loneSurrogate (b # cs))"
| "loneSurrogate cs = False"

definition encodeURIComponent :: "string \<Rightarrow> error + string" where
  "encodeURIComponent s = (if loneSurrogate s then Inl URIError else Inr (percentEncode s))"

text \<open>\<^verbatim>\<open>Array.prototype.map\<close> with a callback that may throw.\<close>

fun mapE :: "('a \<Rightarrow> error + 'b) \<Rightarrow> 'a list \<Rightarrow> error + 'b list" where
  "mapE f [] = Inr []"
| "mapE f (x # xs) =
     (case f x of
        Inl e \<Rightarrow> Inl e
      | Inr y \<Rightarrow> (case mapE f xs of Inl e \<Rightarrow> Inl e | Inr ys \<Rightarrow> Inr (y # ys)))"

text \<open>
  The object literal of lines 195-202, one entry of the skill-gap report, given the two
  encoded query strings; and the \<^verbatim>\<open>map\<close> callback that builds it.
\<close>

definition gapObject :: "string \<Rightarrow> string \<Rightarrow> string \<Rightarrow> jsval" where
  "gapObject s yt co =
     JObj
       [(''skill'', JStr s),
        (''yourLevel'', JStr ''Beginner''),
        (''recommendedCourses'', JArr
           [JObj [(''title'', JStr (s @ '' Crash Course (YouTube)'')),
                  (''link'', JStr (''https://www.youtube.com/results?search_query='' @ yt))],
            JObj [(''title'', JStr (s @ '' Specialization (Coursera)'')),
                  (''link'', JStr (''https://www.coursera.org/search?query='' @ co))]])]"

definition skillGap :: "string \<Rightarrow> error + jsval" where
  "skillGap s =
     (case encodeURIComponent (s @ '' tutorial'') of
        Inl e \<Rightarrow> Inl e
      | Inr yt \<Rightarrow>
          (case encodeURIComponent s of
             Inl e \<Rightarrow> Inl e
           | Inr co \<Rightarrow> Inr (gapObject s yt co)))"

text \<open>
  The object pushed onto \<open>paths\<close> (lines 203-218), given the values of \<open>gap\<close> and of
  \<^verbatim>\<open>gap.map((g) => g.skill)\<close>; and the loop body that computes them for one item.
\<close>

definition pathObject :: "string \<Rightarrow> catalogItem \<Rightarrow> jsval list \<Rightarrow> jsval list \<Rightarrow> jsval" where
  "pathObject interest item gap weak =
     JObj
       [(''careerPath'', JStr (careerPath item)),
        (''requiredSkills'', JArr (map JStr (requiredSkills item))),
        (''missingSkills'', JArr (map JStr (requiredSkills item))),
        (''weakSkills'', JArr weak),
        (''projectSuggestions'', JArr
           [JObj [(''title'', JStr (careerPath item @ '' Portfolio Project'')),
                  (''description'', JStr
                     ''Build and deploy a production-ready project demonstrating core skills.''),
                  (''link'', JStr ''https://roadmap.sh'')]]),
        (''roadmap'', JArr
           [JObj [(''title'', JStr ''Foundations''),
                  (''steps'', JArr [JStr ''Learn fundamentals'', JStr ''Build mini-projects''])],
            JObj [(''title'', JStr ''Intermediate''),
                  (''steps'', JArr [JStr ''Take a specialization'', JStr ''Build a capstone''])],
            JObj [(''title'', JStr ''Advanced''),
                  (''steps'', JArr [JStr ''Contribute to open source'',
                                    JStr ''Apply for internships''])]]),
        (''tags'', JArr [JStr interest]),
        (''skillGapReport'', JArr gap)]"

definition pathRecord :: "string \<Rightarrow> catalogItem \<Rightarrow> error + jsval" where
  "pathRecord interest item =
     (case mapE skillGap
             (take (min 3 (length (requiredSkills item))) (requiredSkills item)) of
        Inl e \<Rightarrow> Inl e
      | Inr gap \<Rightarrow>
          (case mapE (\<lambda>g. getProp g ''skill'') gap of
             Inl e \<Rightarrow> Inl e
           | Inr weak \<Rightarrow> Inr (pathObject interest item gap weak)))"

text \<open>
  The inner loop over the items of one interest, with the state \<open>(seen, paths)\<close> it
  updates, and the outer loop over the interests.
\<close>

fun itemsLoop ::
  "string \<Rightarrow> catalogItem list \<Rightarrow> string set \<times> jsval list \<Rightarrow> error + string set \<times> jsval list"
where
  "itemsLoop interest [] st = Inr st"
| "itemsLoop interest (item # items) (seen, paths) =
     (if careerPath item \<in> seen then itemsLoop interest items (seen, paths)
      else
        (case pathRecord interest item of
           Inl e \<Rightarrow> Inl e
         | Inr p \<Rightarrow> itemsLoop interest items (insert (careerPath item) seen, paths @ [p])))"

fun interestsLoop ::
  "string list \<Rightarrow> string set \<times> jsval list \<Rightarrow> error + string set \<times> jsval list"
where
  "interestsLoop [] st = Inr st"
| "interestsLoop (interest # rest) st =
     (case itemsOf interest of
        Inl e \<Rightarrow> Inl e
      | Inr items \<Rightarrow>
          (case itemsLoop interest items st of
             Inl e \<Rightarrow> Inl e
           | Inr st' \<Rightarrow> interestsLoop rest st'))"

definition genericPath :: jsval where
  "genericPath =
     JObj [(''careerPath'', JStr ''Generalist Software Engineer''),
           (''requiredSkills'', JArr [JStr ''Problem Solving'', JStr ''Git'',
                                      JStr ''JavaScript/TypeScript'']),
           (''missingSkills'', JArr [JStr ''Testing'']),
           (''weakSkills'', JArr [JStr ''System Design'']),
           (''projectSuggestions'', JArr []),
           (''roadmap'', JArr []),
           (''tags'', JArr []),
           (''skillGapReport'', JArr [])]"

definition fallbackSuggestions :: "string list \<Rightarrow> error + jsval list" where
  "fallbackSuggestions interests =
     (case interestsLoop interests ({}, []) of
        Inl e \<Rightarrow> Inl e
      | Inr (seen, paths) \<Rightarrow> Inr (if length paths \<noteq> 0 then paths else [genericPath]))"

text \<open>
  The fallback generator in the words of the specification (section 4.2): each interest
  is looked up in the Catalog in input order, an interest that is absent contributing
  nothing; the entries are deduplicated by career-path name, first seen wins; every
  retained entry gives one record; with nothing retained the result is the one generic
  record.
\<close>

definition catalogEntries :: "string \<Rightarrow> catalogItem list" where
  "catalogEntries interest = (case map_of catalog interest of Some items \<Rightarrow> items | None \<Rightarrow> [])"

definition candidates :: "string list \<Rightarrow> (string \<times> catalogItem) list" where
  "candidates interests = concat (map (\<lambda>i. map (Pair i) (catalogEntries i)) interests)"

function firstSeen :: "(string \<times> catalogItem) list \<Rightarrow> (string \<times> catalogItem) list" where
  "firstSeen [] = []"
| "firstSeen (x # xs) =
     x # firstSeen (filter (\<lambda>y. careerPath (snd y) \<noteq> careerPath (snd x)) xs)"
  by pat_completeness auto
termination
  by (relation "measure length") (auto simp: less_Suc_eq_le)

definition retained :: "string list \<Rightarrow> (string \<times> catalogItem) list" where
  "retained interests = firstSeen (candidates interests)"

definition gapFor :: "string \<Rightarrow> jsval" where
  "gapFor s = gapObject s (percentEncode (s @ '' tutorial'')) (percentEncode s)"

definition pathFor :: "string \<times> catalogItem \<Rightarrow> jsval" where
  "pathFor e =
     pathObject (fst e) (snd e)
       (map gapFor (take 3 (requiredSkills (snd e))))
       (map JStr (take 3 (requiredSkills (snd e))))"

definition fallback_spec :: "string list \<Rightarrow> jsval list" where
  "fallback_spec interests =
     (if retained interests = [] then [genericPath] else map pathFor (retained interests))"

text \<open>For the proofs: the two nested loops as one loop over the (interest, item) pairs.\<close>

fun pairsLoop ::
  "(string \<times> catalogItem) list \<Rightarrow> string set \<times> jsval list \<Rightarrow> error + string set \<times> jsval list"
where
  "pairsLoop [] st = Inr st"
| "pairsLoop (x # xs) (seen, paths) =
     (if careerPath (snd x) \<in> seen then pairsLoop xs (seen, paths)
      else
        (case pathRecord (fst x) (snd x) of
           Inl e \<Rightarrow> Inl e
         | Inr p \<Rightarrow> pairsLoop xs (insert (careerPath (snd x)) seen, paths @ [p])))"

definition isAscii :: "string \<Rightarrow> bool" where
  "isAscii s = list_all (\<lambda>c. (of_char c :: nat) < 128) s"

section \<open>The profile analysis flow\<close>

record academicDetails =
  tenthPercentage :: jsnum
  twelfthPercentage :: "jsnum option"
  diplomaUgPercentage :: "jsnum option"

record AnalyzeStudentProfileInput =
  resumeDataUri :: string
  academicDetails :: academicDetails
  interests :: "string list"

record resumeInsights =
  pros :: "string list"
  cons :: "string list"

record AnalyzeStudentProfileOutput =
  suggestedCareerPaths :: "jsval list"
  resumeInsights :: "resumeInsights option"

text \<open>
  The flow of lines 123-244. The model call \<^verbatim>\<open>analyzeProfilePrompt(input)\<close> is the
  external collaborator and is the parameter \<open>prompt\<close>: \<open>Inr output\<close> is the
  \<^verbatim>\<open>output\<close> of its response, \<open>Inl\<close> whatever the \<^verbatim>\<open>await\<close> or the
  destructuring throws. The result is \<open>Inr\<close> the object the flow returns, or \<open>Inl\<close>
  the exception that leaves it (the rejection of its promise). The \<^verbatim>\<open>console.error\<close>
  of the handler is a log line and is left out.
\<close>

definition tryBlock ::
  "nat \<Rightarrow> (string \<Rightarrow> error + jsval) \<Rightarrow>
   (AnalyzeStudentProfileInput \<Rightarrow> error + jsval) \<Rightarrow>
   AnalyzeStudentProfileInput \<Rightarrow> error + AnalyzeStudentProfileOutput"
where
  "tryBlock maxArgs parse prompt input =
     (case prompt input of
        Inl e \<Rightarrow> Inl e
      | Inr output \<Rightarrow>
          (case normalize_out maxArgs parse output of
             Inl e \<Rightarrow> Inl e
           | Inr normalized \<Rightarrow>
               (if length normalized = 0 then
                  (case fallbackSuggestions (interests input) of
                     Inl e \<Rightarrow> Inl e
                   | Inr ps \<Rightarrow>
                       Inr \<lparr>suggestedCareerPaths = ps,
                            resumeInsights =
                              Some \<lparr>pros = [''Basic profile analyzed''],
                                    cons = [''AI output empty; used fallback'']\<rparr>\<rparr>)
                else Inr \<lparr>suggestedCareerPaths = normalized, resumeInsights = None\<rparr>)))"

definition analyzeStudentProfileFlow ::
  "nat \<Rightarrow> (string \<Rightarrow> error + jsval) \<Rightarrow>
   (AnalyzeStudentProfileInput \<Rightarrow> error + jsval) \<Rightarrow>
   AnalyzeStudentProfileInput \<Rightarrow> error + AnalyzeStudentProfileOutput"
where
  "analyzeStudentProfileFlow maxArgs parse prompt input =
     (case tryBlock maxArgs parse prompt input of
        Inr r \<Rightarrow> Inr r
      | Inl err \<Rightarrow>
          (case fallbackSuggestions (interests input) of
             Inl e \<Rightarrow> Inl e
           | Inr ps \<Rightarrow>
               Inr \<lparr>suggestedCareerPaths = ps,
                    resumeInsights =
                      Some \<lparr>pros = [''Generated locally using interest-based defaults''],
                            cons = [''Live AI service unavailable; results may be generic'']\<rparr>\<rparr>))"

text \<open>
  The file holds a second copy of the flow (lines 358-399) under the same path: no
  \<^verbatim>\<open>try\<close>, no fallback.
\<close>

definition analyzeStudentProfileFlow_copy2 ::
  "nat \<Rightarrow> (string \<Rightarrow> error + jsval) \<Rightarrow>
   (AnalyzeStudentProfileInput \<Rightarrow> error + jsval) \<Rightarrow>
   AnalyzeStudentProfileInput \<Rightarrow> error + AnalyzeStudentProfileOutput"
where
  "analyzeStudentProfileFlow_copy2 maxArgs parse prompt input =
     (case prompt input of
        Inl e \<Rightarrow> Inl e
      | Inr output \<Rightarrow>
          (case normalize_out maxArgs parse output of
             Inl e \<Rightarrow> Inl e
           | Inr normalized \<Rightarrow>
               Inr \<lparr>suggestedCareerPaths = normalized, resumeInsights = None\<rparr>))"

section \<open>The PDF file name\<close>

text \<open>
  \<^verbatim>\<open>sanitizeFileName\<close> (line 51 of the results component):
  \<^verbatim>\<open>name.replace(/[^a-z0-9\-]+/gi, "_").slice(0, 100)\<close>. The class, with the flag
  \<^verbatim>\<open>i\<close> and without \<^verbatim>\<open>u\<close>, leaves exactly the ASCII letters, the digits and the
  hyphen; the global replace scans from the left and the greedy \<^verbatim>\<open>+\<close> takes each run
  of other characters whole. The replaced string is ASCII, so \<^verbatim>\<open>slice\<close> counts the
  same characters in either form of the string.
\<close>

definition keepChar :: "char \<Rightarrow> bool" where
  "keepChar c = (isAlnum c \<or> c = CHR ''-'')"

function replaceRuns :: "string \<Rightarrow> string" where
  "replaceRuns [] = []"
| "replaceRuns (c # cs) =
     (if keepChar c then c # replaceRuns cs
      else CHR ''_'' # replaceRuns (dropWhile (\<lambda>x. \<not> keepChar x) cs))"
  by pat_completeness auto
termination
  by (relation "measure length") (auto simp: less_Suc_eq_le length_dropWhile_le)

definition sanitizeFileName :: "string \<Rightarrow> string" where
  "sanitizeFileName name = take 100 (replaceRuns name)"

text \<open>
  \<^verbatim>\<open>a || b\<close>, and the file name of line 134 in \<^verbatim>\<open>handleDownloadPathPdf\<close>:
  \<^verbatim>\<open>`PathFinderAI_${sanitizeFileName(path.careerPath || path.name || 'Career_Path')}_Report.pdf`\<close>.
  A name that is not a string has no \<^verbatim>\<open>replace\<close> method, and the call throws a
  TypeError (the handler's \<^verbatim>\<open>catch\<close> reports it). The page layout before that line
  is jsPDF's work and is not modelled.
\<close>

definition orElse :: "jsval \<Rightarrow> jsval \<Rightarrow> jsval" where
  "orElse a b = (if truthy a then a else b)"

definition displayName :: "jsval \<Rightarrow> error + jsval" where
  "displayName path =
     (case getProp path ''careerPath'' of
        Inl e \<Rightarrow> Inl e
      | Inr cp \<Rightarrow>
          (if truthy cp then Inr cp
           else
             (case getProp path ''name'' of
                Inl e \<Rightarrow> Inl e
              | Inr nm \<Rightarrow> Inr (orElse nm (JStr ''Career_Path'')))))"

definition pdfFileName :: "jsval \<Rightarrow> error + string" where
  "pdfFileName path =
     (case displayName path of
        Inl e \<Rightarrow> Inl e
      | Inr (JStr name) \<Rightarrow> Inr (''PathFinderAI_'' @ sanitizeFileName name @ ''_Report.pdf'')
      | Inr v \<Rightarrow> Inl TypeError)"

text \<open>
  The sanitized name in the words of the specification: the name is cut into its
  maximal runs of characters of one kind, every run of characters that are not ASCII
  letters, digits or hyphens is replaced (by one underscore), and the result is cut to
  100 characters.
\<close>

function runsOf :: "string \<Rightarrow> string list" where
  "runsOf [] = []"
| "runsOf (c # cs) =
     (c # takeWhile (\<lambda>x. keepChar x = keepChar c) cs)
       # runsOf (dropWhile (\<lambda>x. keepChar x = keepChar c) cs)"
  by pat_completeness auto
termination
  by (relation "measure length") (auto simp: less_Suc_eq_le length_dropWhile_le)

definition sanitize_spec :: "string \<Rightarrow> string" where
  "sanitize_spec name =
     take 100 (concat (map (\<lambda>run. if keepChar (hd run) then run else ''_'') (runsOf name)))"

section \<open>Properties of the normalizer\<close>

lemma collectArrays_obj:
  "collectArrays maxArgs (JObj fs) keys acc =
     (if list_ex (\<lambda>k. case map_of fs k of Some (JArr xs) \<Rightarrow> maxArgs < length xs | _ \<Rightarrow> False) keys
      then Inl RangeError
      else Inr (acc @ concat (concat
             (map (\<lambda>k. case map_of fs k of Some (JArr xs) \<Rightarrow> [xs] | _ \<Rightarrow> []) keys))))"
proof (induction keys arbitrary: acc)
  case Nil
  show ?case by simp
next
  case (Cons k keys)
  show ?case
  proof (cases "map_of fs k")
    case None
    then show ?thesis using Cons.IH by simp
  next
    case (Some v)
    then show ?thesis using Cons.IH by (cases v) simp_all
  qed
qed

lemma arrayField_obj:
  "arrayField (JObj fs) k = Inr (arrayFieldOf (JObj fs) k)"
proof (cases "map_of fs k")
  case None
  then show ?thesis by (simp add: arrayField_def)
next
  case (Some v)
  then show ?thesis by (cases v) (simp_all add: arrayField_def)
qed

lemma arrayField_prim:
  "arrayField JUndefined k = Inr None"
  "arrayField JNull k = Inr None"
  "arrayField (JBool b) k = Inr None"
  "arrayField (JNum n) k = Inr None"
  "arrayField (JStr s) k = Inr None"
  by (simp_all add: arrayField_def)

lemma normalize_out_data:
  "normalize_out maxArgs parse out =
     (case parsed parse out of
        JArr xs \<Rightarrow> Inr xs
      | JObj fs \<Rightarrow>
          (case arrayFieldOf (JObj fs) ''suggestedCareerPaths'' of
             Some xs \<Rightarrow> Inr xs
           | None \<Rightarrow>
               (case arrayFieldOf (JObj fs) ''careerPaths'' of
                  Some xs \<Rightarrow> Inr xs
                | None \<Rightarrow>
                    (if tooLongField maxArgs fs then Inl RangeError
                     else Inr (concat (arrayValuedFields fs)))))
      | _ \<Rightarrow> Inr [])"
proof (cases "parsed parse out")
  case (JObj fs)
  then show ?thesis
    unfolding normalize_out_def Let_def
    by (simp add: arrayField_obj collectArrays_obj objectKeys_def arrayValuedFields_def
        tooLongField_def split: option.splits)
next
  case (JArr xs)
  then show ?thesis by (simp add: normalize_out_def)
qed (simp_all add: normalize_out_def arrayField_prim)

lemma parsed_spec:
  "parsed parse raw =
     (case raw of JStr s \<Rightarrow> (case parse s of Inr d \<Rightarrow> d | Inl e \<Rightarrow> raw) | _ \<Rightarrow> raw)"
  by (simp add: parsed_def split: jsval.splits sum.splits)

lemma normalize_out_spec:
  "normalize_out maxArgs parse raw =
     (if spreadFails maxArgs (parsed parse raw) then Inl RangeError
      else Inr (normalize_spec parse raw))"
  unfolding normalize_out_data normalize_spec_def Let_def parsed_spec [symmetric] spreadFails_def
  by (cases "parsed parse raw") (simp_all split: option.splits jsval.splits)

lemma tooLongField_single:
  "tooLongField maxArgs [(k, JArr xs)] = (maxArgs < length xs)"
  by (simp add: tooLongField_def)

text \<open>
  C2. For every input value the normalizer is to follow the specification's decision
  tree, whose last branch returns the concatenation of an object's array-valued
  fields. The code does not on an object with an array-valued field of more elements
  than a call takes arguments: the decision tree gives that field's elements, the code
  throws the RangeError of \<^verbatim>\<open>arrays.push(...val)\<close>. (Theorem
  \<open>normalize_tree_or_range_error\<close> shows that this is the only departure.)
\<close>

theorem normalize_long_field_leaves_tree:
  "normalize_out maxArgs parse (JObj [(''paths'', JArr (replicate (Suc maxArgs) JNull))])
     = Inl RangeError \<and>
   normalize_spec parse (JObj [(''paths'', JArr (replicate (Suc maxArgs) JNull))])
     = replicate (Suc maxArgs) JNull"
proof -
  let ?v = "JObj [(''paths'', JArr (replicate (Suc maxArgs) JNull))]"
  have p: "parsed parse ?v = ?v" by (simp add: parsed_def)
  have f: "spreadFails maxArgs ?v"
    unfolding spreadFails_def by (simp add: tooLongField_single)
  have s: "normalize_spec parse ?v = replicate (Suc maxArgs) JNull"
    unfolding normalize_spec_def Let_def
    by (simp add: arrayValuedFields_def del: replicate.simps)
  from f show ?thesis
    unfolding s by (simp add: normalize_out_spec p del: replicate.simps)
qed

text \<open>
  The normalizer follows the decision tree of the specification on every input value
  but those of the case above, where it throws a RangeError; whatever
  \<^verbatim>\<open>JSON.parse\<close> does, a failed parse included.
\<close>

theorem normalize_tree_or_range_error:
  "normalize_out maxArgs parse raw =
     (if spreadFails maxArgs (parsed parse raw) then Inl RangeError
      else Inr (normalize_spec parse raw))"
  by (rule normalize_out_spec)

text \<open>
  C6. The normalizer is to raise nothing on any input value. The reads
  \<^verbatim>\<open>data.suggestedCareerPaths\<close> and \<^verbatim>\<open>data[key]\<close>, which throw on \<^verbatim>\<open>null\<close> and
  \<^verbatim>\<open>undefined\<close>, are indeed never reached with such a receiver, and a failed parse
  is swallowed; but \<^verbatim>\<open>arrays.push(...val)\<close> raises a RangeError on plain data, an
  object with a long array-valued field, also when that object arrives as JSON text.
\<close>

theorem normalize_raises_range_error:
  "normalize_out maxArgs (\<lambda>s. Inr (JObj [(''a'', JArr []), (''b'', JArr (replicate (maxArgs + 1) (JStr ''x'')))]))
     (JStr ''any text'') = Inl RangeError \<and>
   normalize_out maxArgs parse (JObj [(''a'', JArr []), (''b'', JArr (replicate (maxArgs + 1) (JStr ''x'')))])
     = Inl RangeError"
  by (simp add: normalize_out_spec parsed_def spreadFails_def tooLongField_def
      del: replicate.simps)

text \<open>
  The RangeError above is the only exception the normalizer raises, and it raises none
  on a value whose array-valued fields all fit in a call.
\<close>

theorem normalize_raises_only_range_error:
  "normalize_out maxArgs parse raw = Inl RangeError \<or>
   (\<exists>xs. normalize_out maxArgs parse raw = Inr xs)"
  by (simp add: normalize_out_spec)

text \<open>
  C7. The normalizer is the identity on arrays: \<^verbatim>\<open>normalize(A) == A\<close> for every array
  \<open>A\<close>.
\<close>

theorem normalize_array_identity:
  "normalize_out maxArgs parse (JArr A) = Inr A"
  by (simp add: normalize_out_def parsed_def)

section \<open>Properties of the JSON reader\<close>

lemma skipWs_le: "length (skipWs s) \<le> length s"
  by (simp add: skipWs_def length_dropWhile_le)

lemma skipWs_Cons_less: "skipWs s = d # r \<Longrightarrow> length r < length s"
  using skipWs_le [of s] by simp

lemma lexString_less: "lexString s acc = Some (str, r) \<Longrightarrow> length r < length s"
proof (induction s acc rule: lexString.induct)
  case (1 acc)
  then show ?case by simp
next
  case (2 c cs acc)
  show ?case
  proof (cases "c = CHR 0x22")
    case True
    with "2.prems" show ?thesis by simp
  next
    case nq: False
    show ?thesis
    proof (cases "c = CHR 0x5C")
      case False
      with nq "2.prems" "2.IH"(4) show ?thesis
        by (auto split: if_splits)
    next
      case bs: True
      show ?thesis
      proof (cases cs)
        case Nil
        with nq bs "2.prems" show ?thesis by simp
      next
        case (Cons e es)
        show ?thesis
        proof (cases "e = CHR ''u''")
          case False
          with nq bs Cons "2.prems" obtain x where
            x: "escapeChar e = Some x" and l: "lexString es (acc @ [x]) = Some (str, r)"
            by (auto split: option.splits)
          from "2.IH"(3) [OF nq bs Cons False x] l have "length r < length es" by simp
          with Cons show ?thesis by simp
        next
          case u: True
          from nq bs Cons u "2.prems" obtain w x y z rest hi where
            es: "es = w # x # y # z # rest" and h: "hex4 w x y z = Some hi"
            by (auto split: list.splits option.splits)
          show ?thesis
          proof (cases "if 55296 \<le> hi \<and> hi < 56320 then lowSurrogate rest else None")
            case None
            with nq bs Cons u es h "2.prems" have "lexString rest (acc @ utf8 hi) = Some (str, r)"
              by simp
            with "2.IH"(1) [OF nq bs Cons u es refl refl refl h None] have "length r < length rest" by simp
            with Cons es show ?thesis by simp
          next
            case (Some lo)
            with nq bs Cons u es h "2.prems"
            have "lexString (drop 6 rest)
                    (acc @ utf8 (65536 + (hi - 55296) * 1024 + (lo - 56320))) = Some (str, r)"
              by simp
            with "2.IH"(2) [OF nq bs Cons u es refl refl refl h Some] have "length r < length (drop 6 rest)" by simp
            with Cons es show ?thesis by simp
          qed
        qed
      qed
    qed
  qed
qed

lemma lexFraction_le: "lexFraction s = Some (fp, r) \<Longrightarrow> length r \<le> length s"
  by (auto simp: lexFraction_def split: list.splits if_splits
      intro: le_trans [OF length_dropWhile_le])

lemma lexExponent_le: "lexExponent s = Some (e, r) \<Longrightarrow> length r \<le> length s"
  by (auto simp: lexExponent_def Let_def split: list.splits if_splits
      intro: le_trans [OF length_dropWhile_le] le_SucI)

lemma dropWhile_less: "takeWhile P s \<noteq> [] \<Longrightarrow> length (dropWhile P s) < length s"
  by (cases s) (auto simp: less_Suc_eq_le length_dropWhile_le split: if_splits)

lemma lexNumber_less: "lexNumber s = Some (v, r) \<Longrightarrow> length r < length s"
proof -
  assume a: "lexNumber s = Some (v, r)"
  define s1 where "s1 = (if (case s of [] \<Rightarrow> False | c # r \<Rightarrow> c = CHR ''-'') then tl s else s)"
  from a have ne: "takeWhile isDigit s1 \<noteq> []"
    by (auto simp: lexNumber_def Let_def s1_def split: if_splits)
  from a obtain fp s2 e where f: "lexFraction (dropWhile isDigit s1) = Some (fp, s2)"
    and x: "lexExponent s2 = Some (e, r)"
    by (auto simp: lexNumber_def Let_def s1_def split: if_splits option.splits)
  have "length s1 \<le> length s" by (simp add: s1_def)
  with dropWhile_less [OF ne] lexFraction_le [OF f] lexExponent_le [OF x]
  show ?thesis by simp
qed


lemma parse_remainder:
  "(\<forall>v r. parseValue n s = Ok v r \<longrightarrow> length r < length s)"
  "(\<forall>v r. parseElements n s es = Ok v r \<longrightarrow> length r < length s)"
  "(\<forall>v r. parseMembers n s fs = Ok v r \<longrightarrow> length r < length s)"
proof (induction n s and n s es and n s fs rule: parseValue_parseElements_parseMembers.induct)
  case (1 s)
  show ?case by simp
next
  case (2 n s)
  show ?case
  proof (intro allI impI)
    fix v r assume a: "parseValue (Suc n) s = Ok v r"
    then obtain c cs where s: "s = c # cs" by (cases s) auto
    consider (arr) "c = CHR ''[''" | (obj) "c \<noteq> CHR ''[''" "c = CHR ''{''"
      | (str) "c \<noteq> CHR ''[''" "c \<noteq> CHR ''{''" "c = CHR 0x22"
      | (lit) "c \<noteq> CHR ''[''" "c \<noteq> CHR ''{''" "c \<noteq> CHR 0x22"
      by blast
    then show "length r < length s"
    proof cases
      case arr
      with a s obtain d t where w: "skipWs cs = d # t" by (auto split: list.splits)
      show ?thesis
      proof (cases "d = CHR '']''")
        case True
        with a s arr w have "r = t" by simp
        with skipWs_Cons_less [OF w] s show ?thesis by simp
      next
        case False
        with a s arr w have "parseElements n (d # t) [] = Ok v r" by simp
        with "2.IH"(1) [OF s arr w False] have "length r < length (d # t)" by blast
        with skipWs_le [of cs] w s show ?thesis by simp
      qed
    next
      case obj
      with a s obtain d t where w: "skipWs cs = d # t" by (auto split: list.splits)
      show ?thesis
      proof (cases "d = CHR ''}''")
        case True
        with a s obj w have "r = t" by simp
        with skipWs_Cons_less [OF w] s show ?thesis by simp
      next
        case False
        with a s obj w have "parseMembers n (d # t) [] = Ok v r" by simp
        with "2.IH"(2) [OF s obj w False] have "length r < length (d # t)" by blast
        with skipWs_le [of cs] w s show ?thesis by simp
      qed
    next
      case str
      with a s obtain x where "lexString cs [] = Some (x, r)"
        by (auto split: option.splits)
      from lexString_less [OF this] s show ?thesis by simp
    next
      case lit
      with a s have
        "(take 4 s = ''true'' \<and> r = drop 4 s) \<or> (take 5 s = ''false'' \<and> r = drop 5 s)
         \<or> (take 4 s = ''null'' \<and> r = drop 4 s) \<or> (\<exists>x. lexNumber s = Some (x, r))"
        by (auto split: if_splits option.splits)
      then show ?thesis
        using s by (auto dest: lexNumber_less)
    qed
  qed
next
  case (3 s es)
  show ?case by simp
next
  case (4 n s es)
  show ?case
  proof (intro allI impI)
    fix v r assume a: "parseElements (Suc n) s es = Ok v r"
    then obtain x t where p: "parseValue n s = Ok x t"
      by (cases "parseValue n s") auto
    with "4.IH"(1) have t: "length t < length s" by blast
    from a p obtain d t' where w: "skipWs t = d # t'" by (auto split: list.splits)
    from skipWs_Cons_less [OF w] have t': "length t' < length t" .
    show "length r < length s"
    proof (cases "d = CHR '',''")
      case True
      with a p w have "parseElements n (skipWs t') (es @ [x]) = Ok v r" by simp
      with "4.IH"(2) [OF p w True] have "length r < length (skipWs t')" by blast
      with skipWs_le [of t'] t t' show ?thesis by simp
    next
      case False
      with a p w have "r = t'" by (auto split: if_splits)
      with t t' show ?thesis by simp
    qed
  qed
next
  case (5 s fs)
  show ?case by simp
next
  case (6 n s fs)
  show ?case
  proof (intro allI impI)
    fix v r assume a: "parseMembers (Suc n) s fs = Ok v r"
    then obtain q cs where s: "s = q # cs" by (cases s) auto
    with a have q: "q = CHR 0x22" by (auto split: if_splits)
    with a s obtain k t where l: "lexString cs [] = Some (k, t)"
      by (auto split: option.splits)
    from lexString_less [OF l] have t: "length t < length cs" .
    from a s q l obtain d t1 where w1: "skipWs t = d # t1" by (auto split: list.splits)
    with a s q l have d: "d = CHR '':''" by (auto split: if_splits)
    from skipWs_Cons_less [OF w1] have t1: "length t1 < length t" .
    from a s q l w1 d obtain x t2 where p: "parseValue n (skipWs t1) = Ok x t2"
      by (cases "parseValue n (skipWs t1)") auto
    with "6.IH"(1) [OF s q l refl w1 d] have t2: "length t2 < length (skipWs t1)" by blast
    from a s q l w1 d p obtain d' t3 where w3: "skipWs t2 = d' # t3"
      by (auto split: list.splits)
    from skipWs_Cons_less [OF w3] have t3: "length t3 < length t2" .
    show "length r < length s"
    proof (cases "d' = CHR '',''")
      case True
      with a s q l w1 d p w3 have "parseMembers n (skipWs t3) (setProp fs k x) = Ok v r"
        by simp
      with "6.IH"(2) [OF s q l refl w1 d p w3 True] have "length r < length (skipWs t3)" by blast
      with skipWs_le [of t3] skipWs_le [of t1] t t1 t2 t3 s show ?thesis by simp
    next
      case False
      with a s q l w1 d p w3 have "r = t3" by (auto split: if_splits)
      with skipWs_le [of t1] t t1 t2 t3 s show ?thesis by simp
    qed
  qed
qed


lemma parse_fuel:
  "2 * length s < n \<longrightarrow> parseValue n s \<noteq> OutOfFuel"
  "2 * length s + 1 < n \<longrightarrow> parseElements n s es \<noteq> OutOfFuel"
  "2 * length s + 1 < n \<longrightarrow> parseMembers n s fs \<noteq> OutOfFuel"
proof (induction n s and n s es and n s fs rule: parseValue_parseElements_parseMembers.induct)
  case (1 s)
  show ?case by simp
next
  case (2 n s)
  show ?case
  proof
    assume f: "2 * length s < Suc n"
    show "parseValue (Suc n) s \<noteq> OutOfFuel"
    proof (cases s)
      case Nil
      then show ?thesis by simp
    next
      case s: (Cons c cs)
      consider (arr) "c = CHR ''[''" | (obj) "c \<noteq> CHR ''[''" "c = CHR ''{''"
        | (other) "c \<noteq> CHR ''[''" "c \<noteq> CHR ''{''"
        by blast
      then show ?thesis
      proof cases
        case arr
        show ?thesis
        proof (cases "skipWs cs")
          case Nil
          with s arr show ?thesis by simp
        next
          case w: (Cons d t)
          show ?thesis
          proof (cases "d = CHR '']''")
            case True
            with s arr w show ?thesis by simp
          next
            case False
            from skipWs_le [of cs] w s f have "2 * length (d # t) + 1 < n" by simp
            with "2.IH"(1) [OF s arr w False] s arr w False show ?thesis by simp
          qed
        qed
      next
        case obj
        show ?thesis
        proof (cases "skipWs cs")
          case Nil
          with s obj show ?thesis by simp
        next
          case w: (Cons d t)
          show ?thesis
          proof (cases "d = CHR ''}''")
            case True
            with s obj w show ?thesis by simp
          next
            case False
            from skipWs_le [of cs] w s f have "2 * length (d # t) + 1 < n" by simp
            with "2.IH"(2) [OF s obj w False] s obj w False show ?thesis by simp
          qed
        qed
      next
        case other
        with s show ?thesis by (simp split: option.splits)
      qed
    qed
  qed
next
  case (3 s es)
  show ?case by simp
next
  case (4 n s es)
  show ?case
  proof
    assume f: "2 * length s + 1 < Suc n"
    then have "2 * length s < n" by simp
    with "4.IH"(1) have nf: "parseValue n s \<noteq> OutOfFuel" by blast
    show "parseElements (Suc n) s es \<noteq> OutOfFuel"
    proof (cases "parseValue n s")
      case p: (Ok x t)
      with parse_remainder(1) have t: "length t < length s" by blast
      show ?thesis
      proof (cases "skipWs t")
        case Nil
        with p show ?thesis by simp
      next
        case w: (Cons d t')
        show ?thesis
        proof (cases "d = CHR '',''")
          case True
          from skipWs_Cons_less [OF w] skipWs_le [of t'] t f
          have "2 * length (skipWs t') + 1 < n" by simp
          with "4.IH"(2) [OF p w True] p w True show ?thesis by simp
        next
          case False
          with p w show ?thesis by simp
        qed
      qed
    next
      case Bad
      then show ?thesis by simp
    next
      case OutOfFuel
      with nf show ?thesis by simp
    qed
  qed
next
  case (5 s fs)
  show ?case by simp
next
  case (6 n s fs)
  show ?case
  proof
    assume f: "2 * length s + 1 < Suc n"
    show "parseMembers (Suc n) s fs \<noteq> OutOfFuel"
    proof (cases s)
      case Nil
      then show ?thesis by simp
    next
      case s: (Cons q cs)
      show ?thesis
      proof (cases "q = CHR 0x22")
        case False
        with s show ?thesis by simp
      next
        case q: True
        show ?thesis
        proof (cases "lexString cs []")
          case None
          with s q show ?thesis by simp
        next
          case (Some kt)
          then obtain k t where l: "lexString cs [] = Some (k, t)" by (cases kt) auto
          from lexString_less [OF l] have t: "length t < length cs" .
          show ?thesis
          proof (cases "skipWs t")
            case Nil
            with s q l show ?thesis by simp
          next
            case w1: (Cons d t1)
            from skipWs_Cons_less [OF w1] have t1: "length t1 < length t" .
            show ?thesis
            proof (cases "d = CHR '':''")
              case False
              with s q l w1 show ?thesis by simp
            next
              case d: True
              from skipWs_le [of t1] t t1 s f have "2 * length (skipWs t1) < n" by simp
              with "6.IH"(1) [OF s q l refl w1 d] have nf: "parseValue n (skipWs t1) \<noteq> OutOfFuel"
                by blast
              show ?thesis
              proof (cases "parseValue n (skipWs t1)")
                case p: (Ok x t2)
                with parse_remainder(1) have t2: "length t2 < length (skipWs t1)" by blast
                show ?thesis
                proof (cases "skipWs t2")
                  case Nil
                  with s q l w1 d p show ?thesis by simp
                next
                  case w3: (Cons d' t3)
                  from skipWs_Cons_less [OF w3] have t3: "length t3 < length t2" .
                  show ?thesis
                  proof (cases "d' = CHR '',''")
                    case True
                    from skipWs_le [of t3] skipWs_le [of t1] t t1 t2 t3 s f
                    have "2 * length (skipWs t3) + 1 < n" by simp
                    with "6.IH"(2) [OF s q l refl w1 d p w3 True] s q l w1 d p w3 True
                    show ?thesis by simp
                  next
                    case False
                    with s q l w1 d p w3 show ?thesis by simp
                  qed
                qed
              next
                case Bad
                with s q l w1 d show ?thesis by simp
              next
                case OutOfFuel
                with nf show ?thesis by simp
              qed
            qed
          qed
        qed
      qed
    qed
  qed
qed

lemma JSON_parse_fuel: "parseValue (2 * length src + 2) (skipWs src) \<noteq> OutOfFuel"
proof -
  from skipWs_le [of src] have "2 * length (skipWs src) < 2 * length src + 2" by simp
  with parse_fuel(1) show ?thesis by blast
qed

section \<open>The normalizer on JSON texts\<close>

text \<open>
  C8, as amended. For every string \<open>S\<close> that is valid JSON: when the decoded value is
  not itself a string, \<^verbatim>\<open>normalize(S)\<close> equals \<^verbatim>\<open>normalize(decode(S))\<close>; when
  it is a string, \<^verbatim>\<open>normalize(S)\<close> is empty. The normalizer parses once: a decoded
  string is not parsed again, while \<^verbatim>\<open>normalize\<close> applied to that string would
  parse it.
\<close>

theorem normalize_json_text:
  assumes "parse S = Inr v"
  shows "normalize_out maxArgs parse (JStr S) =
           (case v of JStr t \<Rightarrow> Inr [] | _ \<Rightarrow> normalize_out maxArgs parse v)"
proof -
  have p: "parsed parse (JStr S) = v" using assms by (simp add: parsed_def)
  show ?thesis
  proof (cases v)
    case (JStr t)
    with p show ?thesis by (simp add: normalize_out_data)
  qed (simp_all add: normalize_out_data p, simp_all add: parsed_def)
qed

text \<open>
  The closed instances below are run with \<open>maxArgs = 65536\<close>, the fixed limit of
  JavaScriptCore; no array is spread in them, and they hold for any other limit alike.
\<close>

theorem normalize_json_text_witness:
  "JSON_parse (''{'' @ quoted ''careerPaths'' @ '':[true, null]}'') =
     Inr (JObj [(''careerPaths'', JArr [JBool True, JNull])]) \<and>
   normalize_out 65536 JSON_parse (JStr (''{'' @ quoted ''careerPaths'' @ '':[true, null]}'')) =
     Inr [JBool True, JNull] \<and>
   normalize_out 65536 JSON_parse (JObj [(''careerPaths'', JArr [JBool True, JNull])]) =
     Inr [JBool True, JNull]"
proof -
  have h: "JSON_parse (''{'' @ quoted ''careerPaths'' @ '':[true, null]}'') =
     Inr (JObj [(''careerPaths'', JArr [JBool True, JNull])])"
    by code_simp
  have n: "normalize_out 65536 JSON_parse (JObj [(''careerPaths'', JArr [JBool True, JNull])]) =
     Inr [JBool True, JNull]"
    by (simp add: normalize_out_data parsed_def)
  show ?thesis
    using normalize_json_text [of JSON_parse _ _ 65536, OF h] h n by simp
qed

text \<open>
  C8 as stated fails on a JSON text that encodes a string holding JSON: the text
  \<^verbatim>\<open>"[null]"\<close> (with its quotes) decodes to the string \<^verbatim>\<open>[null]\<close>; normalizing
  the text gives the empty sequence, normalizing the decoded string gives one element.
\<close>

theorem normalize_json_text_counterexample:
  "JSON_parse (quoted ''[null]'') = Inr (JStr ''[null]'') \<and>
   normalize_out 65536 JSON_parse (JStr (quoted ''[null]'')) = Inr [] \<and>
   normalize_out 65536 JSON_parse (JStr ''[null]'') = Inr [JNull] \<and>
   normalize_out 65536 JSON_parse (JStr (quoted ''[null]'')) \<noteq>
     normalize_out 65536 JSON_parse (JStr ''[null]'')"
proof -
  have a: "JSON_parse (quoted ''[null]'') = Inr (JStr ''[null]'')" by code_simp
  have b: "JSON_parse ''[null]'' = Inr (JArr [JNull])" by code_simp
  show ?thesis
    by (simp add: a b normalize_out_data parsed_def)
qed

section \<open>Properties of the fallback generator\<close>

lemma loneSurrogate_ascii: "isAscii s \<Longrightarrow> \<not> loneSurrogate s"
  by (induction s rule: loneSurrogate.induct) (auto simp: isAscii_def)

lemma encodeURIComponent_ascii: "isAscii s \<Longrightarrow> encodeURIComponent s = Inr (percentEncode s)"
  by (simp add: encodeURIComponent_def loneSurrogate_ascii)

lemma skillGap_ascii: "isAscii s \<Longrightarrow> skillGap s = Inr (gapFor s)"
proof -
  assume a: "isAscii s"
  then have "isAscii (s @ '' tutorial'')" by (simp add: isAscii_def)
  with a show ?thesis by (simp add: skillGap_def gapFor_def encodeURIComponent_ascii)
qed

lemma mapE_total: "list_all (\<lambda>x. f x = Inr (g x)) xs \<Longrightarrow> mapE f xs = Inr (map g xs)"
  by (induction xs) auto

lemma getProp_gap_skill: "getProp (gapFor s) ''skill'' = Inr (JStr s)"
  by (simp add: gapFor_def gapObject_def)

lemma weak_of_gaps: "mapE (\<lambda>g. getProp g ''skill'') (map gapFor xs) = Inr (map JStr xs)"
  by (induction xs) (simp_all add: getProp_gap_skill)

lemma pathRecord_ascii:
  assumes "list_all isAscii (requiredSkills item)"
  shows "pathRecord interest item = Inr (pathFor (interest, item))"
proof -
  let ?sk = "take 3 (requiredSkills item)"
  have t: "take (min 3 (length (requiredSkills item))) (requiredSkills item) = ?sk"
    by (simp add: min_def)
  have "list_all isAscii ?sk" using assms by (auto simp: list_all_iff dest: in_set_takeD)
  then have g: "mapE skillGap ?sk = Inr (map gapFor ?sk)"
    by (intro mapE_total) (auto simp: list_all_iff skillGap_ascii)
  show ?thesis unfolding pathRecord_def t g by (simp add: weak_of_gaps pathFor_def)
qed

lemma catalog_ascii:
  "list_all (\<lambda>item. list_all isAscii (requiredSkills item)) (concat (map snd catalog))"
  by (simp add: catalog_def isAscii_def)

lemma catalog_entries_ascii:
  "item \<in> set (catalogEntries i) \<Longrightarrow> list_all isAscii (requiredSkills item)"
proof -
  assume a: "item \<in> set (catalogEntries i)"
  then obtain items where "map_of catalog i = Some items" and "item \<in> set items"
    by (cases "map_of catalog i") (auto simp: catalogEntries_def)
  then have "(i, items) \<in> set catalog" and "item \<in> set items"
    by (auto dest: map_of_SomeD)
  then have "item \<in> set (concat (map snd catalog))"
    by force
  with catalog_ascii show ?thesis unfolding list_all_iff by blast
qed

lemma pairsLoop_firstSeen:
  assumes "list_all (\<lambda>x. pathRecord (fst x) (snd x) = Inr (pathFor x)) xs"
  shows "pairsLoop xs (seen, paths) =
           Inr (seen \<union> set (map (\<lambda>x. careerPath (snd x)) xs),
                paths @ map pathFor (firstSeen (filter (\<lambda>x. careerPath (snd x) \<notin> seen) xs)))"
  using assms
proof (induction xs arbitrary: seen paths)
  case Nil
  show ?case by simp
next
  case (Cons x xs)
  have f: "filter (\<lambda>y. careerPath (snd y) \<noteq> careerPath (snd x)) (filter (\<lambda>x. careerPath (snd x) \<notin> seen) xs)
         = filter (\<lambda>y. careerPath (snd y) \<notin> insert (careerPath (snd x)) seen) xs"
    by (induction xs) auto
  from Cons show ?case
    by (auto simp del: filter_filter simp: f insert_absorb)
qed

lemma pairsLoop_append:
  "pairsLoop (xs @ ys) st = (case pairsLoop xs st of Inl e \<Rightarrow> Inl e | Inr st' \<Rightarrow> pairsLoop ys st')"
proof (induction xs arbitrary: st)
  case Nil show ?case by simp
next
  case (Cons x xs)
  obtain seen paths where st: "st = (seen, paths)" by (cases st)
  show ?case unfolding st using Cons by (simp split: sum.splits)
qed

lemma itemsLoop_pairs: "itemsLoop i items st = pairsLoop (map (Pair i) items) st"
proof (induction items arbitrary: st)
  case Nil show ?case by simp
next
  case (Cons x xs)
  obtain seen paths where st: "st = (seen, paths)" by (cases st)
  show ?case unfolding st using Cons by (simp split: sum.splits)
qed

lemma catalog_keys:
  "map fst catalog = [''Artificial Intelligence'', ''Web Development'', ''UI/UX Design'',
     ''Data Science'', ''Cybersecurity'', ''Mobile App Development'', ''Cloud Computing'',
     ''Game Development'']"
  by (simp add: catalog_def)

lemma prototype_keys_not_own:
  "list_all (\<lambda>k. k \<notin> set (map fst catalog)) objectPrototypeKeys"
  unfolding catalog_keys objectPrototypeKeys_def by simp

lemma catalog_no_prototype_key:
  "i \<in> set objectPrototypeKeys \<Longrightarrow> map_of catalog i = None"
proof -
  assume "i \<in> set objectPrototypeKeys"
  with prototype_keys_not_own have "i \<notin> set (map fst catalog)"
    unfolding list_all_iff by blast
  then show ?thesis by (simp add: map_of_eq_None_iff)
qed

lemma itemsOf_cases:
  "itemsOf i = (if i \<in> set objectPrototypeKeys then Inl TypeError else Inr (catalogEntries i))"
  by (auto simp: itemsOf_def catalogGet_def catalogEntries_def catalog_no_prototype_key split: option.splits)


lemma candidates_total:
  "list_all (\<lambda>x. pathRecord (fst x) (snd x) = Inr (pathFor x)) (candidates is)"
  unfolding list_all_iff candidates_def
  by (auto intro!: pathRecord_ascii catalog_entries_ascii)

lemma candidates_Cons: "candidates (i # is) = map (Pair i) (catalogEntries i) @ candidates is"
  by (simp add: candidates_def)

lemma entries_total:
  "list_all (\<lambda>x. pathRecord (fst x) (snd x) = Inr (pathFor x)) (map (Pair i) (catalogEntries i))"
  unfolding list_all_iff
  by (auto intro!: pathRecord_ascii catalog_entries_ascii)

lemma interestsLoop_cases:
  "interestsLoop is st =
     (if list_ex (\<lambda>i. i \<in> set objectPrototypeKeys) is then Inl TypeError
      else pairsLoop (candidates is) st)"
proof (induction "is" arbitrary: st)
  case Nil
  show ?case by (simp add: candidates_def)
next
  case (Cons i "is")
  obtain seen paths where st: "st = (seen, paths)" by (cases st)
  show ?case
  proof (cases "i \<in> set objectPrototypeKeys")
    case True
    then show ?thesis by (simp add: itemsOf_cases)
  next
    case False
    obtain st' where p: "pairsLoop (map (Pair i) (catalogEntries i)) st = Inr st'"
      unfolding st using pairsLoop_firstSeen [OF entries_total] by blast
    show ?thesis
      using False Cons [of st']
      by (simp add: itemsOf_cases itemsLoop_pairs p candidates_Cons pairsLoop_append)
  qed
qed

lemma fallback_cases:
  "fallbackSuggestions is =
     (if list_ex (\<lambda>i. i \<in> set objectPrototypeKeys) is then Inl TypeError
      else Inr (fallback_spec is))"
  unfolding fallbackSuggestions_def interestsLoop_cases
  by (simp add: pairsLoop_firstSeen [OF candidates_total] fallback_spec_def retained_def)


lemma percentEncode_tutorial:
  "percentEncode (s @ '' tutorial'') = percentEncode s @ ''%20tutorial''"
  by (simp add: percentEncode_def percentByte_def uriUnreserved_def isAlnum_def hexDigit_def)

lemma fallback_nth:
  assumes "fallbackSuggestions labels = Inr paths"
      and "k < length (retained labels)"
  shows "k < length paths \<and> paths ! k = pathFor (retained labels ! k)"
proof -
  from assms(2) have ne: "retained labels \<noteq> []" by auto
  from assms(1) have "paths = fallback_spec labels"
    by (simp add: fallback_cases split: if_splits)
  with ne have "paths = map pathFor (retained labels)"
    by (simp add: fallback_spec_def)
  with assms(2) show ?thesis by simp
qed

text \<open>
  C4. For every catalog entry retained by the fallback, the produced record has a
  skill-gap report built from at most the first 3 required skills (fewer when the entry
  has fewer), each entry with level "Beginner" and exactly two course links, a YouTube
  search URL and a Coursera search URL with the skill name percent-encoded into the
  query string; exactly one project suggestion from the fixed template; the fixed
  3-stage roadmap (Foundations, Intermediate, Advanced, 2 steps each); and the tags
  \<open>[interest]\<close>. The record for the \<open>k\<close>-th retained entry is the \<open>k\<close>-th of the
  result.
\<close>

theorem fallback_record_shape:
  assumes "fallbackSuggestions labels = Inr paths"
      and "k < length (retained labels)"
      and "retained labels ! k = (interest, item)"
  shows "k < length paths \<and>
     getProp (paths ! k) ''careerPath'' = Inr (JStr (careerPath item)) \<and>
     getProp (paths ! k) ''skillGapReport'' =
       Inr (JArr (map (\<lambda>s.
         JObj [(''skill'', JStr s),
               (''yourLevel'', JStr ''Beginner''),
               (''recommendedCourses'', JArr
                  [JObj [(''title'', JStr (s @ '' Crash Course (YouTube)'')),
                         (''link'', JStr (''https://www.youtube.com/results?search_query=''
                                            @ percentEncode s @ ''%20tutorial''))],
                   JObj [(''title'', JStr (s @ '' Specialization (Coursera)'')),
                         (''link'', JStr (''https://www.coursera.org/search?query=''
                                            @ percentEncode s))]])])
         (take 3 (requiredSkills item)))) \<and>
     length (take 3 (requiredSkills item)) = min 3 (length (requiredSkills item)) \<and>
     getProp (paths ! k) ''projectSuggestions'' =
       Inr (JArr
         [JObj [(''title'', JStr (careerPath item @ '' Portfolio Project'')),
                (''description'', JStr
                   ''Build and deploy a production-ready project demonstrating core skills.''),
                (''link'', JStr ''https://roadmap.sh'')]]) \<and>
     getProp (paths ! k) ''roadmap'' =
       Inr (JArr
         [JObj [(''title'', JStr ''Foundations''),
                (''steps'', JArr [JStr ''Learn fundamentals'', JStr ''Build mini-projects''])],
          JObj [(''title'', JStr ''Intermediate''),
                (''steps'', JArr [JStr ''Take a specialization'', JStr ''Build a capstone''])],
          JObj [(''title'', JStr ''Advanced''),
                (''steps'', JArr [JStr ''Contribute to open source'',
                                  JStr ''Apply for internships''])]]) \<and>
     getProp (paths ! k) ''tags'' = Inr (JArr [JStr interest])"
proof -
  from fallback_nth [OF assms(1,2)] assms(3)
  have k: "k < length paths" and p: "paths ! k = pathFor (interest, item)" by simp_all
  show ?thesis
    unfolding p
    by (simp add: k pathFor_def pathObject_def gapFor_def gapObject_def percentEncode_tutorial)
qed

text \<open>
  C10. For every record the fallback produces from a catalog entry,
  \<^verbatim>\<open>missingSkills\<close> is the entry's whole \<^verbatim>\<open>requiredSkills\<close> list and
  \<^verbatim>\<open>weakSkills\<close> is the list of the skills of the record's \<^verbatim>\<open>skillGapReport\<close>,
  the first \<open>min 3 n\<close> required skills.
\<close>

theorem fallback_missing_weak_skills:
  assumes "fallbackSuggestions labels = Inr paths"
      and "k < length (retained labels)"
      and "retained labels ! k = (interest, item)"
  shows "getProp (paths ! k) ''missingSkills'' = Inr (JArr (map JStr (requiredSkills item))) \<and>
     getProp (paths ! k) ''weakSkills'' =
       Inr (JArr (map JStr (take (min 3 (length (requiredSkills item))) (requiredSkills item)))) \<and>
     (\<exists>gaps weak.
        getProp (paths ! k) ''skillGapReport'' = Inr (JArr gaps) \<and>
        mapE (\<lambda>g. getProp g ''skill'') gaps = Inr weak \<and>
        getProp (paths ! k) ''weakSkills'' = Inr (JArr weak))"
proof -
  from fallback_nth [OF assms(1,2)] assms(3)
  have p: "paths ! k = pathFor (interest, item)" by simp
  have t: "take (min 3 (length (requiredSkills item))) (requiredSkills item)
             = take 3 (requiredSkills item)"
    by (simp add: min_def)
  have g: "getProp (pathFor (interest, item)) ''skillGapReport''
             = Inr (JArr (map gapFor (take 3 (requiredSkills item))))"
    by (simp add: pathFor_def pathObject_def)
  have w: "getProp (pathFor (interest, item)) ''weakSkills''
             = Inr (JArr (map JStr (take 3 (requiredSkills item))))"
    by (simp add: pathFor_def pathObject_def)
  have m: "getProp (pathFor (interest, item)) ''missingSkills''
             = Inr (JArr (map JStr (requiredSkills item)))"
    by (simp add: pathFor_def pathObject_def)
  show ?thesis
    unfolding p t using g w m weak_of_gaps by blast
qed


lemma retained_game:
  "retained [''Game Development''] =
     [(''Game Development'',
        \<lparr>careerPath = ''Game Developer'',
         requiredSkills = [''Unity/Unreal'', ''C# or C++'', ''Game Physics'', ''3D Math'']\<rparr>),
      (''Game Development'',
        \<lparr>careerPath = ''Technical Artist'',
         requiredSkills = [''Shaders'', ''3D Pipelines'', ''Scripting'', ''Rendering'']\<rparr>)]"
  by (simp add: retained_def candidates_def catalogEntries_def catalog_def)

lemma fallback_game:
  "fallbackSuggestions [''Game Development''] = Inr (fallback_spec [''Game Development''])"
  by (simp add: fallback_cases objectPrototypeKeys_def)

lemma fallback_ai:
  "fallbackSuggestions [''Artificial Intelligence''] = Inr (fallback_spec [''Artificial Intelligence''])"
  by (simp add: fallback_cases objectPrototypeKeys_def)

theorem fallback_record_shape_witness:
  "fallbackSuggestions [''Game Development''] = Inr (fallback_spec [''Game Development'']) \<and>
   0 < length (retained [''Game Development'']) \<and>
   retained [''Game Development''] ! 0 =
     (''Game Development'',
      \<lparr>careerPath = ''Game Developer'',
       requiredSkills = [''Unity/Unreal'', ''C# or C++'', ''Game Physics'', ''3D Math'']\<rparr>) \<and>
   getProp (fallback_spec [''Game Development''] ! 0) ''tags'' =
     Inr (JArr [JStr ''Game Development'']) \<and>
   getProp (fallback_spec [''Game Development''] ! 0) ''skillGapReport'' =
     Inr (JArr
       [JObj [(''skill'', JStr ''Unity/Unreal''),
              (''yourLevel'', JStr ''Beginner''),
              (''recommendedCourses'', JArr
                 [JObj [(''title'', JStr ''Unity/Unreal Crash Course (YouTube)''),
                        (''link'', JStr
                           ''https://www.youtube.com/results?search_query=Unity%2FUnreal%20tutorial'')],
                  JObj [(''title'', JStr ''Unity/Unreal Specialization (Coursera)''),
                        (''link'', JStr ''https://www.coursera.org/search?query=Unity%2FUnreal'')]])],
        JObj [(''skill'', JStr ''C# or C++''),
              (''yourLevel'', JStr ''Beginner''),
              (''recommendedCourses'', JArr
                 [JObj [(''title'', JStr ''C# or C++ Crash Course (YouTube)''),
                        (''link'', JStr
                           ''https://www.youtube.com/results?search_query=C%23%20or%20C%2B%2B%20tutorial'')],
                  JObj [(''title'', JStr ''C# or C++ Specialization (Coursera)''),
                        (''link'', JStr
                           ''https://www.coursera.org/search?query=C%23%20or%20C%2B%2B'')]])],
        JObj [(''skill'', JStr ''Game Physics''),
              (''yourLevel'', JStr ''Beginner''),
              (''recommendedCourses'', JArr
                 [JObj [(''title'', JStr ''Game Physics Crash Course (YouTube)''),
                        (''link'', JStr
                           ''https://www.youtube.com/results?search_query=Game%20Physics%20tutorial'')],
                  JObj [(''title'', JStr ''Game Physics Specialization (Coursera)''),
                        (''link'', JStr ''https://www.coursera.org/search?query=Game%20Physics'')]])]])"
proof -
  have h2: "0 < length (retained [''Game Development''])" by (simp add: retained_game)
  have h3: "retained [''Game Development''] ! 0 =
     (''Game Development'',
      \<lparr>careerPath = ''Game Developer'',
       requiredSkills = [''Unity/Unreal'', ''C# or C++'', ''Game Physics'', ''3D Math'']\<rparr>)"
    by (simp add: retained_game)
  show ?thesis
    using fallback_record_shape [OF fallback_game h2 h3] h2 h3 fallback_game
    by (simp add: percentEncode_def percentByte_def uriUnreserved_def isAlnum_def hexDigit_def)
qed

lemma retained_ai:
  "retained [''Artificial Intelligence''] =
     [(''Artificial Intelligence'',
        \<lparr>careerPath = ''Machine Learning Engineer'',
         requiredSkills = [''Python'', ''Machine Learning'', ''TensorFlow'', ''PyTorch'',
           ''Data Structures'', ''Statistics'']\<rparr>),
      (''Artificial Intelligence'',
        \<lparr>careerPath = ''AI Researcher'',
         requiredSkills = [''Python'', ''Deep Learning'', ''NLP'', ''Research Methods'',
           ''Mathematics'']\<rparr>)]"
  by (simp add: retained_def candidates_def catalogEntries_def catalog_def)

theorem fallback_missing_weak_skills_witness:
  "fallbackSuggestions [''Artificial Intelligence''] =
     Inr (fallback_spec [''Artificial Intelligence'']) \<and>
   0 < length (retained [''Artificial Intelligence'']) \<and>
   retained [''Artificial Intelligence''] ! 0 =
     (''Artificial Intelligence'',
      \<lparr>careerPath = ''Machine Learning Engineer'',
       requiredSkills = [''Python'', ''Machine Learning'', ''TensorFlow'', ''PyTorch'',
         ''Data Structures'', ''Statistics'']\<rparr>) \<and>
   getProp (fallback_spec [''Artificial Intelligence''] ! 0) ''missingSkills'' =
     Inr (JArr [JStr ''Python'', JStr ''Machine Learning'', JStr ''TensorFlow'', JStr ''PyTorch'',
                JStr ''Data Structures'', JStr ''Statistics'']) \<and>
   getProp (fallback_spec [''Artificial Intelligence''] ! 0) ''weakSkills'' =
     Inr (JArr [JStr ''Python'', JStr ''Machine Learning'', JStr ''TensorFlow''])"
proof -
  have h2: "0 < length (retained [''Artificial Intelligence''])" by (simp add: retained_ai)
  have h3: "retained [''Artificial Intelligence''] ! 0 =
     (''Artificial Intelligence'',
      \<lparr>careerPath = ''Machine Learning Engineer'',
       requiredSkills = [''Python'', ''Machine Learning'', ''TensorFlow'', ''PyTorch'',
         ''Data Structures'', ''Statistics'']\<rparr>)"
    by (simp add: retained_ai)
  show ?thesis
    using fallback_missing_weak_skills [OF fallback_ai h2 h3] h2 h3 fallback_ai
    by simp
qed


text \<open>
  C3. The fallback looks up each interest in the Catalog in input order, an interest
  absent from the Catalog contributing nothing, and deduplicates by career-path name,
  first seen wins. The code does so for every interest but the names of the properties
  of \<^verbatim>\<open>Object.prototype\<close>: \<^verbatim>\<open>catalog['constructor']\<close> is not \<^verbatim>\<open>undefined\<close>
  but the inherited function, \<^verbatim>\<open>|| []\<close> keeps it, and \<^verbatim>\<open>for ... of\<close> throws a
  TypeError. The interest is absent from the Catalog and the call does not return.
  (Theorems \<open>fallback_follows_spec\<close> and \<open>fallback_examples\<close> give the behaviour for
  every other input, and the two examples of the claim.)
\<close>

theorem fallback_throws_on_prototype_key:
  "fallbackSuggestions [''constructor''] = Inl TypeError \<and>
   map_of catalog ''constructor'' = None \<and>
   fallbackSuggestions [''Artificial Intelligence'', ''constructor''] = Inl TypeError"
  by (simp add: fallback_cases objectPrototypeKeys_def catalog_no_prototype_key)

text \<open>
  C5. When no interest matches a Catalog entry the fallback returns the one generic
  "Generalist Software Engineer" record. The code does so (theorem
  \<open>fallback_generic\<close>) unless an interest is the name of a property of
  \<^verbatim>\<open>Object.prototype\<close>: then no interest matches an entry and the call throws.
\<close>

theorem fallback_no_match_throws:
  "list_all (\<lambda>i. map_of catalog i = None) [''Robotics'', ''toString''] \<and>
   fallbackSuggestions [''Robotics'', ''toString''] = Inl TypeError \<and>
   fallbackSuggestions [''__proto__''] = Inl TypeError"
  by (simp add: fallback_cases objectPrototypeKeys_def catalog_no_prototype_key)
    (simp add: catalog_def)

theorem fallback_follows_spec:
  "list_all (\<lambda>i. i \<notin> set objectPrototypeKeys) labels \<Longrightarrow>
   fallbackSuggestions labels = Inr (fallback_spec labels)"
  by (simp add: fallback_cases list_all_iff list_ex_iff)

theorem fallback_follows_spec_witness:
  "list_all (\<lambda>i. i \<notin> set objectPrototypeKeys)
     [''Web Development'', ''Astrology'', ''Web Development''] \<and>
   fallbackSuggestions [''Web Development'', ''Astrology'', ''Web Development''] =
     Inr (map pathFor
       [(''Web Development'',
          \<lparr>careerPath = ''Frontend Developer'',
           requiredSkills = [''HTML'', ''CSS'', ''JavaScript'', ''React'', ''TypeScript'']\<rparr>),
        (''Web Development'',
          \<lparr>careerPath = ''Full-Stack Developer'',
           requiredSkills = [''Node.js'', ''Express'', ''React'', ''Databases'', ''REST APIs'']\<rparr>)])"
proof -
  have h: "list_all (\<lambda>i. i \<notin> set objectPrototypeKeys)
     [''Web Development'', ''Astrology'', ''Web Development'']"
    by (simp add: objectPrototypeKeys_def)
  have r: "retained [''Web Development'', ''Astrology'', ''Web Development''] =
       [(''Web Development'',
          \<lparr>careerPath = ''Frontend Developer'',
           requiredSkills = [''HTML'', ''CSS'', ''JavaScript'', ''React'', ''TypeScript'']\<rparr>),
        (''Web Development'',
          \<lparr>careerPath = ''Full-Stack Developer'',
           requiredSkills = [''Node.js'', ''Express'', ''React'', ''Databases'', ''REST APIs'']\<rparr>)]"
    by (simp add: retained_def candidates_def catalogEntries_def catalog_def)
  show ?thesis
    using fallback_follows_spec [OF h] h by (simp add: fallback_spec_def r)
qed

theorem fallback_examples:
  "fallbackSuggestions [''Artificial Intelligence''] =
     Inr (map pathFor
       [(''Artificial Intelligence'',
          \<lparr>careerPath = ''Machine Learning Engineer'',
           requiredSkills = [''Python'', ''Machine Learning'', ''TensorFlow'', ''PyTorch'',
             ''Data Structures'', ''Statistics'']\<rparr>),
        (''Artificial Intelligence'',
          \<lparr>careerPath = ''AI Researcher'',
           requiredSkills = [''Python'', ''Deep Learning'', ''NLP'', ''Research Methods'',
             ''Mathematics'']\<rparr>)]) \<and>
   list_all (\<lambda>p. getProp p ''tags'' = Inr (JArr [JStr ''Artificial Intelligence'']))
     (fallback_spec [''Artificial Intelligence'']) \<and>
   fallbackSuggestions [''Artificial Intelligence'', ''Web Development''] =
     Inr (map pathFor
       [(''Artificial Intelligence'',
          \<lparr>careerPath = ''Machine Learning Engineer'',
           requiredSkills = [''Python'', ''Machine Learning'', ''TensorFlow'', ''PyTorch'',
             ''Data Structures'', ''Statistics'']\<rparr>),
        (''Artificial Intelligence'',
          \<lparr>careerPath = ''AI Researcher'',
           requiredSkills = [''Python'', ''Deep Learning'', ''NLP'', ''Research Methods'',
             ''Mathematics'']\<rparr>),
        (''Web Development'',
          \<lparr>careerPath = ''Frontend Developer'',
           requiredSkills = [''HTML'', ''CSS'', ''JavaScript'', ''React'', ''TypeScript'']\<rparr>),
        (''Web Development'',
          \<lparr>careerPath = ''Full-Stack Developer'',
           requiredSkills = [''Node.js'', ''Express'', ''React'', ''Databases'', ''REST APIs'']\<rparr>)])"
proof -
  have r2: "retained [''Artificial Intelligence'', ''Web Development''] =
       [(''Artificial Intelligence'',
          \<lparr>careerPath = ''Machine Learning Engineer'',
           requiredSkills = [''Python'', ''Machine Learning'', ''TensorFlow'', ''PyTorch'',
             ''Data Structures'', ''Statistics'']\<rparr>),
        (''Artificial Intelligence'',
          \<lparr>careerPath = ''AI Researcher'',
           requiredSkills = [''Python'', ''Deep Learning'', ''NLP'', ''Research Methods'',
             ''Mathematics'']\<rparr>),
        (''Web Development'',
          \<lparr>careerPath = ''Frontend Developer'',
           requiredSkills = [''HTML'', ''CSS'', ''JavaScript'', ''React'', ''TypeScript'']\<rparr>),
        (''Web Development'',
          \<lparr>careerPath = ''Full-Stack Developer'',
           requiredSkills = [''Node.js'', ''Express'', ''React'', ''Databases'', ''REST APIs'']\<rparr>)]"
    by (simp add: retained_def candidates_def catalogEntries_def catalog_def)
  have a: "fallbackSuggestions [''Artificial Intelligence'', ''Web Development'']
             = Inr (fallback_spec [''Artificial Intelligence'', ''Web Development''])"
    by (simp add: fallback_cases objectPrototypeKeys_def)
  have t: "list_all (\<lambda>p. getProp p ''tags'' = Inr (JArr [JStr ''Artificial Intelligence'']))
     (fallback_spec [''Artificial Intelligence''])"
    by (simp add: fallback_spec_def retained_ai pathFor_def pathObject_def)
  show ?thesis
    using t by (simp add: fallback_ai a fallback_spec_def retained_ai r2)
qed

lemma catalogEntries_none: "map_of catalog i = None \<Longrightarrow> catalogEntries i = []"
  by (simp add: catalogEntries_def)

lemma candidates_none:
  "list_all (\<lambda>i. map_of catalog i = None) labels \<Longrightarrow> candidates labels = []"
  by (induction labels) (simp_all add: candidates_def catalogEntries_none)

theorem fallback_generic:
  "list_all (\<lambda>i. map_of catalog i = None \<and> i \<notin> set objectPrototypeKeys) labels \<Longrightarrow>
   fallbackSuggestions labels = Inr [genericPath] \<and>
   getProp genericPath ''careerPath'' = Inr (JStr ''Generalist Software Engineer'') \<and>
   getProp genericPath ''projectSuggestions'' = Inr (JArr []) \<and>
   getProp genericPath ''roadmap'' = Inr (JArr []) \<and>
   getProp genericPath ''skillGapReport'' = Inr (JArr [])"
proof -
  assume a: "list_all (\<lambda>i. map_of catalog i = None \<and> i \<notin> set objectPrototypeKeys) labels"
  then have "list_all (\<lambda>i. map_of catalog i = None) labels"
    and s: "list_all (\<lambda>i. i \<notin> set objectPrototypeKeys) labels"
    by (simp_all add: list_all_iff)
  then have "retained labels = []" by (simp add: retained_def candidates_none)
  then show ?thesis
    by (simp add: fallback_cases s [unfolded list_all_iff] list_ex_iff fallback_spec_def genericPath_def)
qed

theorem fallback_generic_witness:
  "list_all (\<lambda>i. map_of catalog i = None \<and> i \<notin> set objectPrototypeKeys) [] \<and>
   fallbackSuggestions [] = Inr [genericPath] \<and>
   list_all (\<lambda>i. map_of catalog i = None \<and> i \<notin> set objectPrototypeKeys) [''Astrology'', ''AI''] \<and>
   fallbackSuggestions [''Astrology'', ''AI''] = Inr [genericPath]"
proof -
  have h: "list_all (\<lambda>i. map_of catalog i = None \<and> i \<notin> set objectPrototypeKeys) [''Astrology'', ''AI'']"
    by (simp add: catalog_def objectPrototypeKeys_def)
  show ?thesis
    using fallback_generic [of "[]"] fallback_generic [OF h] h by simp
qed


section \<open>Properties of the flow\<close>

lemma normalize_out_array: "normalize_out maxArgs parse (JArr xs) = Inr xs"
  by (simp add: normalize_out_def parsed_def)

text \<open>
  C1. The flow always produces a result and surfaces no error. With an interest that is
  the name of a property of \<^verbatim>\<open>Object.prototype\<close> the fallback throws inside the
  \<^verbatim>\<open>catch\<close> handler (and, on an empty model output, first inside the
  \<^verbatim>\<open>try\<close>), and the TypeError leaves the flow. Theorem \<open>flow_policy\<close> gives the
  decision policy of the claim for every other input.
\<close>

theorem flow_surfaces_type_error:
  "analyzeStudentProfileFlow maxArgs parse (\<lambda>input. Inl (CallFailed ''fetch failed''))
     \<lparr>resumeDataUri = ''data:application/pdf;base64,AAAA'',
      academicDetails = \<lparr>tenthPercentage = Finite 90, twelfthPercentage = None,
                         diplomaUgPercentage = None\<rparr>,
      interests = [''constructor'']\<rparr> = Inl TypeError \<and>
   analyzeStudentProfileFlow maxArgs parse (\<lambda>input. Inr (JArr []))
     \<lparr>resumeDataUri = ''data:application/pdf;base64,AAAA'',
      academicDetails = \<lparr>tenthPercentage = Finite 90, twelfthPercentage = None,
                         diplomaUgPercentage = None\<rparr>,
      interests = [''constructor'']\<rparr> = Inl TypeError"
  by (simp add: analyzeStudentProfileFlow_def tryBlock_def normalize_out_array fallback_cases
      objectPrototypeKeys_def)

text \<open>
  The decision policy of the flow, for every input whose interests hold no name of a
  property of \<^verbatim>\<open>Object.prototype\<close>. The RangeError of the normalizer is thrown inside
  the \<^verbatim>\<open>try\<close> and handled like a failed model call.
\<close>

theorem flow_policy:
  assumes "list_all (\<lambda>i. i \<notin> set objectPrototypeKeys) (interests input)"
  shows "analyzeStudentProfileFlow maxArgs parse prompt input =
     Inr (case prompt input of
            Inl e \<Rightarrow>
              \<lparr>suggestedCareerPaths = fallback_spec (interests input),
               resumeInsights =
                 Some \<lparr>pros = [''Generated locally using interest-based defaults''],
                       cons = [''Live AI service unavailable; results may be generic'']\<rparr>\<rparr>
          | Inr output \<Rightarrow>
              (if spreadFails maxArgs (parsed parse output) then
                 \<lparr>suggestedCareerPaths = fallback_spec (interests input),
                  resumeInsights =
                    Some \<lparr>pros = [''Generated locally using interest-based defaults''],
                          cons = [''Live AI service unavailable; results may be generic'']\<rparr>\<rparr>
               else if normalize_spec parse output = [] then
                 \<lparr>suggestedCareerPaths = fallback_spec (interests input),
                  resumeInsights =
                    Some \<lparr>pros = [''Basic profile analyzed''],
                          cons = [''AI output empty; used fallback'']\<rparr>\<rparr>
               else \<lparr>suggestedCareerPaths = normalize_spec parse output,
                     resumeInsights = None\<rparr>))"
proof -
  from assms have f: "fallbackSuggestions (interests input) = Inr (fallback_spec (interests input))"
    by (simp add: fallback_cases list_all_iff list_ex_iff)
  show ?thesis
    by (cases "prompt input")
      (simp_all add: analyzeStudentProfileFlow_def tryBlock_def f normalize_out_spec)
qed

theorem flow_policy_witness:
  "list_all (\<lambda>i. i \<notin> set objectPrototypeKeys) [''Data Science''] \<and>
   analyzeStudentProfileFlow 65536 JSON_parse (\<lambda>input. Inl (CallFailed ''quota exceeded''))
     \<lparr>resumeDataUri = ''data:application/pdf;base64,AAAA'',
      academicDetails = \<lparr>tenthPercentage = Finite 90, twelfthPercentage = None,
                         diplomaUgPercentage = None\<rparr>,
      interests = [''Data Science'']\<rparr> =
     Inr \<lparr>suggestedCareerPaths = fallback_spec [''Data Science''],
          resumeInsights =
            Some \<lparr>pros = [''Generated locally using interest-based defaults''],
                  cons = [''Live AI service unavailable; results may be generic'']\<rparr>\<rparr> \<and>
   analyzeStudentProfileFlow 65536 JSON_parse
     (\<lambda>input. Inr (JStr (''{'' @ quoted ''suggestedCareerPaths'' @ '':[]}'')))
     \<lparr>resumeDataUri = ''data:application/pdf;base64,AAAA'',
      academicDetails = \<lparr>tenthPercentage = Finite 90, twelfthPercentage = None,
                         diplomaUgPercentage = None\<rparr>,
      interests = [''Data Science'']\<rparr> =
     Inr \<lparr>suggestedCareerPaths = fallback_spec [''Data Science''],
          resumeInsights =
            Some \<lparr>pros = [''Basic profile analyzed''],
                  cons = [''AI output empty; used fallback'']\<rparr>\<rparr> \<and>
   analyzeStudentProfileFlow 65536 JSON_parse
     (\<lambda>input. Inr (JArr [JObj [(''careerPath'', JStr ''Data Scientist'')], JNull]))
     \<lparr>resumeDataUri = ''data:application/pdf;base64,AAAA'',
      academicDetails = \<lparr>tenthPercentage = Finite 90, twelfthPercentage = None,
                         diplomaUgPercentage = None\<rparr>,
      interests = [''Data Science'']\<rparr> =
     Inr \<lparr>suggestedCareerPaths = [JObj [(''careerPath'', JStr ''Data Scientist'')], JNull],
          resumeInsights = None\<rparr>"
proof -
  have h: "list_all (\<lambda>i. i \<notin> set objectPrototypeKeys) [''Data Science'']"
    by (simp add: objectPrototypeKeys_def)
  let ?input = "\<lparr>resumeDataUri = ''data:application/pdf;base64,AAAA'',
      academicDetails = \<lparr>tenthPercentage = Finite 90, twelfthPercentage = None,
                         diplomaUgPercentage = None\<rparr>,
      interests = [''Data Science'']\<rparr>"
  have h': "list_all (\<lambda>i. i \<notin> set objectPrototypeKeys) (interests ?input)"
    using h by simp
  have j: "JSON_parse (''{'' @ quoted ''suggestedCareerPaths'' @ '':[]}'') =
             Inr (JObj [(''suggestedCareerPaths'', JArr [])])"
    by code_simp
  have p: "parsed JSON_parse (JStr (''{'' @ quoted ''suggestedCareerPaths'' @ '':[]}'')) =
             JObj [(''suggestedCareerPaths'', JArr [])]"
    unfolding parsed_def jsval.case j by simp
  have n: "normalize_spec JSON_parse (JStr (''{'' @ quoted ''suggestedCareerPaths'' @ '':[]}'')) = []"
    unfolding normalize_spec_def jsval.case j by simp
  show ?thesis
    using h
      flow_policy [OF h', of 65536 JSON_parse "\<lambda>input. Inl (CallFailed ''quota exceeded'')"]
      flow_policy [OF h', of 65536 JSON_parse
        "\<lambda>input. Inr (JStr (''{'' @ quoted ''suggestedCareerPaths'' @ '':[]}''))"]
      flow_policy [OF h', of 65536 JSON_parse
        "\<lambda>input. Inr (JArr [JObj [(''careerPath'', JStr ''Data Scientist'')], JNull])"]
    unfolding sum.case n p by (simp add: normalize_spec_def spreadFails_def parsed_def)
qed

text \<open>
  The second copy of the flow has no fallback: a failed model call is surfaced, and an
  empty normalized sequence is the result.
\<close>

theorem flow_copy2_no_fallback:
  "analyzeStudentProfileFlow_copy2 maxArgs parse (\<lambda>input. Inl (CallFailed ''fetch failed'')) input
     = Inl (CallFailed ''fetch failed'') \<and>
   analyzeStudentProfileFlow_copy2 maxArgs parse
       (\<lambda>input. Inr (JObj [(''suggestedCareerPaths'', JArr [])])) input
     = Inr \<lparr>suggestedCareerPaths = [], resumeInsights = None\<rparr>"
  by (simp add: analyzeStudentProfileFlow_copy2_def normalize_out_spec normalize_spec_def
      spreadFails_def parsed_def)

section \<open>Properties of the file name\<close>

lemma replaceRuns_keep_prefix:
  "list_all keepChar xs \<Longrightarrow> replaceRuns (xs @ ys) = xs @ replaceRuns ys"
  by (induction xs) simp_all

lemma same_kind_keep: "keepChar c \<Longrightarrow> (\<lambda>x. keepChar x = keepChar c) = keepChar"
  by auto

lemma same_kind_drop: "\<not> keepChar c \<Longrightarrow> (\<lambda>x. keepChar x = keepChar c) = (\<lambda>x. \<not> keepChar x)"
  by auto

lemma replaceRuns_runs:
  "replaceRuns s = concat (map (\<lambda>run. if keepChar (hd run) then run else ''_'') (runsOf s))"
proof (induction s rule: runsOf.induct)
  case 1
  show ?case by simp
next
  case (2 c cs)
  show ?case
  proof (cases "keepChar c")
    case True
    have "replaceRuns cs = replaceRuns (takeWhile keepChar cs @ dropWhile keepChar cs)"
      by simp
    also have "\<dots> = takeWhile keepChar cs @ replaceRuns (dropWhile keepChar cs)"
      by (rule replaceRuns_keep_prefix) (simp add: list_all_iff, meson set_takeWhileD)
    finally show ?thesis
      using True 2 by (simp add: same_kind_keep)
  next
    case False
    then show ?thesis
      using 2 by (simp add: same_kind_drop)
  qed
qed

lemma runsOf_concat: "concat (runsOf s) = s"
  by (induction s rule: runsOf.induct) simp_all

lemma runsOf_uniform:
  "r \<in> set (runsOf s) \<Longrightarrow> r \<noteq> [] \<and> list_all (\<lambda>c. keepChar c = keepChar (hd r)) r"
proof (induction s rule: runsOf.induct)
  case 1
  then show ?case by simp
next
  case (2 c cs)
  let ?P = "\<lambda>x. keepChar x = keepChar c"
  from "2.prems" consider "r = c # takeWhile ?P cs" | "r \<in> set (runsOf (dropWhile ?P cs))"
    by auto
  then show ?case
  proof cases
    case 1
    have "list_all ?P (takeWhile ?P cs)"
      unfolding list_all_iff using set_takeWhileD by fast
    with 1 show ?thesis by simp
  next
    case 2
    then show ?thesis by (rule "2.IH")
  qed
qed

lemma replaceRuns_chars: "list_all (\<lambda>c. keepChar c \<or> c = CHR ''_'') (replaceRuns s)"
  by (induction s rule: replaceRuns.induct) simp_all

lemma sanitize_length: "length (sanitizeFileName name) \<le> 100"
  by (simp add: sanitizeFileName_def)

text \<open>
  C9. The PDF export file name is derived from the sanitized career-path name: every
  maximal run of characters that are not ASCII letters, digits or hyphens is replaced
  (by one underscore) and the sanitized name is cut to at most 100 characters. The
  name that is sanitized is the one the handler displays,
  \<^verbatim>\<open>path.careerPath || path.name || 'Career_Path'\<close>, which is the record's
  \<^verbatim>\<open>careerPath\<close> whenever that is a non-empty string.
\<close>

theorem pdf_file_name_sanitized:
  "sanitizeFileName name = sanitize_spec name \<and>
   length (sanitizeFileName name) \<le> 100 \<and>
   (displayName path = Inr (JStr name) \<longrightarrow>
      pdfFileName path = Inr (''PathFinderAI_'' @ sanitize_spec name @ ''_Report.pdf'')) \<and>
   (getProp path ''careerPath'' = Inr (JStr name) \<and> name \<noteq> [] \<longrightarrow>
      displayName path = Inr (JStr name))"
proof -
  have s: "sanitizeFileName name = sanitize_spec name"
    by (simp add: sanitizeFileName_def sanitize_spec_def replaceRuns_runs)
  show ?thesis
    by (auto simp: s [symmetric] sanitize_length pdfFileName_def displayName_def)
qed

theorem pdf_file_name_sanitized_witness:
  "sanitizeFileName ''UI/UX  Designer (C# & C++)'' = ''UI_UX_Designer_C_C_'' \<and>
   displayName (JObj [(''careerPath'', JStr ''UI/UX  Designer (C# & C++)'')])
     = Inr (JStr ''UI/UX  Designer (C# & C++)'') \<and>
   pdfFileName (JObj [(''careerPath'', JStr ''UI/UX  Designer (C# & C++)'')])
     = Inr ''PathFinderAI_UI_UX_Designer_C_C__Report.pdf''"
proof -
  have e: "sanitizeFileName ''UI/UX  Designer (C# & C++)'' = ''UI_UX_Designer_C_C_''"
    by (simp add: sanitizeFileName_def keepChar_def isAlnum_def)
  have g: "getProp (JObj [(''careerPath'', JStr ''UI/UX  Designer (C# & C++)'')]) ''careerPath''
             = Inr (JStr ''UI/UX  Designer (C# & C++)'')"
    by simp
  show ?thesis
    using pdf_file_name_sanitized
      [of "''UI/UX  Designer (C# & C++)''" "JObj [(''careerPath'', JStr ''UI/UX  Designer (C# & C++)'')]"]
      e g
    by simp
qed



end
